theory Spec2Isabelle
  imports Main "HOL-Library.Word"
begin

section \<open>Python values used by app.py\<close>

text \<open>
  A Python \<open>str\<close> is a sequence of Unicode code points, so it is modelled as a list of
  natural numbers; \<open>bytes\<close> is a list of 8-bit words. ASCII literals of the source are
  written with \<open>ascii\<close>; the emoji of the reply texts are given by their code points.
\<close>

type_synonym pystr = "nat list"
type_synonym bytes = "8 word list"

definition ascii :: "string \<Rightarrow> pystr" where
  "ascii s = map of_char s"

definition newline :: pystr where
  "newline = [10]"

text \<open>\<open>str.isspace\<close> on one code point: the whitespace table of CPython.\<close>

definition py_isspace :: "nat \<Rightarrow> bool" where
  "py_isspace c =
     ((9 \<le> c \<and> c \<le> 13) \<or> (28 \<le> c \<and> c \<le> 32) \<or> c = 133 \<or> c = 160 \<or> c = 5760
      \<or> (8192 \<le> c \<and> c \<le> 8202) \<or> c = 8232 \<or> c = 8233 \<or> c = 8239 \<or> c = 8287
      \<or> c = 12288)"

text \<open>\<open>s.strip()\<close>: leading and trailing whitespace removed.\<close>

definition strip :: "pystr \<Rightarrow> pystr" where
  "strip s = rev (dropWhile py_isspace (rev (dropWhile py_isspace s)))"

text \<open>An f-string field holding an \<open>Optional[str]\<close>: \<open>None\<close> is printed as \<open>None\<close>.\<close>

definition format_opt :: "pystr option \<Rightarrow> pystr" where
  "format_opt v = (case v of None \<Rightarrow> ascii ''None'' | Some s \<Rightarrow> s)"

text \<open>
  Exceptions are values. The interpreter raises the first three while the response is
  taken apart; \<open>FileNotFoundError\<close> comes from the file system; \<open>OSError\<close> is any
  other error of the file system (a name that is too long, a directory, a missing
  permission), which \<open>except FileNotFoundError\<close> does not catch; \<open>LibraryError\<close> stands
  for any other subclass of \<open>Exception\<close> raised by the generation client, the imaging
  library, the messaging client or the operating system.
\<close>

datatype exn =
    IndexError pystr
  | TypeError pystr
  | AttributeError pystr
  | FileNotFoundError pystr
  | OSError pystr
  | LibraryError pystr

fun str_exn :: "exn \<Rightarrow> pystr" where
  "str_exn (IndexError m) = m"
| "str_exn (TypeError m) = m"
| "str_exn (AttributeError m) = m"
| "str_exn (FileNotFoundError m) = m"
| "str_exn (OSError m) = m"
| "str_exn (LibraryError m) = m"

fun is_FileNotFoundError :: "exn \<Rightarrow> bool" where
  "is_FileNotFoundError (FileNotFoundError m) = True"
| "is_FileNotFoundError x = False"

section \<open>The generation response\<close>

text \<open>
  The fields of the generation client's response that the handler reads; each of them is
  optional in the client library.
\<close>

datatype blob = Blob (data: "bytes option")
datatype part = Part (part_text: "pystr option") (inline_data: "blob option")
datatype content = Content (parts: "part list option")
datatype candidate = Candidate (content: "content option")
datatype response = GenerateContentResponse (candidates: "candidate list option")

section \<open>The process state and the outside world\<close>

record outbound =
  body :: pystr
  from_ :: pystr
  to :: "pystr option"
  media_url :: "pystr list"

datatype message_instance = MessageInstance (sid: "pystr option")

datatype log_record = INFO pystr | ERROR pystr

text \<open>
  Everything the handlers can change: the files of the working directory, the module-level
  dictionary \<open>generated_images\<close>, the requests issued to the generation service and to the
  messaging provider (recorded when the call is made, whatever its outcome), and the log.
\<close>

record world =
  files :: "pystr \<rightharpoonup> bytes"
  generated_images :: "pystr \<rightharpoonup> bool"
  generate_calls :: "(pystr \<times> pystr list) list"
  created_messages :: "outbound list"
  logged :: "log_record list"

text \<open>
  What the outside world answers during one request: the generation service, the random
  UUID, the imaging library (decoding, and the bytes that saving under a file name writes),
  the process environment and the messaging provider. A failing \<open>image.save\<close> is taken to
  leave the directory as it was.
\<close>

record 'img env =
  generate_content :: "pystr \<Rightarrow> pystr list \<Rightarrow> exn + response"
  uuid4_hex :: pystr
  Image_open :: "bytes \<Rightarrow> exn + 'img"
  Image_save :: "'img \<Rightarrow> pystr \<Rightarrow> exn + bytes"
  environ :: "pystr \<rightharpoonup> pystr"
  messages_create :: "outbound \<Rightarrow> exn + message_instance"

definition getenv :: "'img env \<Rightarrow> pystr \<Rightarrow> pystr \<Rightarrow> pystr" where
  "getenv e k d = (case environ e k of None \<Rightarrow> d | Some v \<Rightarrow> v)"

definition logger_info :: "pystr \<Rightarrow> world \<Rightarrow> world" where
  "logger_info m w = w\<lparr>logged := logged w @ [INFO m]\<rparr>"

definition logger_error :: "pystr \<Rightarrow> world \<Rightarrow> world" where
  "logger_error m w = w\<lparr>logged := logged w @ [ERROR m]\<rparr>"

section \<open>The webhook reply\<close>

text \<open>
  A \<open>MessagingResponse\<close> is the list of its message bodies, in order; its rendering as
  markup is the messaging library's business.
\<close>

type_synonym twiml = "pystr list"

definition MessagingResponse :: twiml where
  "MessagingResponse = []"

definition message :: "pystr \<Rightarrow> twiml \<Rightarrow> twiml" where
  "message t r = r @ [t]"

definition success_text :: pystr where
  "success_text = [0x2705] @ ascii '' Your image has been generated and is on its way!''"

definition no_image_notice :: pystr where
  "no_image_notice =
     [0x26A0, 0xFE0F] @ ascii '' No image generated, but here's the response:'' @ newline"

definition could_not_generate_text :: pystr where
  "could_not_generate_text =
     [0x274C] @ ascii '' Sorry, I couldn't generate an image from that prompt. Please try something else!''"

definition error_text :: pystr where
  "error_text =
     [0x274C] @ ascii '' Sorry, an error occurred while processing your request. Please try again.''"

definition caption :: "pystr \<Rightarrow> pystr" where
  "caption incoming_msg =
     [0x1F3A8] @ ascii '' Here's your generated image for: '' @ [39] @ incoming_msg @ [39]"

section \<open>incoming_whatsapp\<close>

text \<open>
  \<open>response.candidates[0].content.parts\<close>, with the exception of each access: subscripting
  \<open>None\<close>, subscripting an empty list, reading \<open>parts\<close> of \<open>None\<close>, and iterating over
  \<open>None\<close>, with the interpreter's messages.
\<close>

definition NoneType :: pystr where
  "NoneType = [39] @ ascii ''NoneType'' @ [39]"

definition first_candidate_parts :: "response \<Rightarrow> exn + part list" where
  "first_candidate_parts r =
     (case candidates r of
        None \<Rightarrow> Inl (TypeError (NoneType @ ascii '' object is not subscriptable''))
      | Some [] \<Rightarrow> Inl (IndexError (ascii ''list index out of range''))
      | Some (c # cs) \<Rightarrow>
          (case content c of
             None \<Rightarrow> Inl (AttributeError (NoneType @ ascii '' object has no attribute ''
                                          @ [39] @ ascii ''parts'' @ [39]))
           | Some ct \<Rightarrow>
               (case parts ct of
                  None \<Rightarrow> Inl (TypeError (NoneType @ ascii '' object is not iterable''))
                | Some ps \<Rightarrow> Inr ps)))"

text \<open>
  The loop over the parts (lines 55-59), with its two variables as accumulators.
\<close>

fun process_parts :: "part list \<Rightarrow> bytes option \<Rightarrow> pystr \<Rightarrow> bytes option \<times> pystr" where
  "process_parts [] image_data response_text = (image_data, response_text)"
| "process_parts (p # ps) image_data response_text =
     (case part_text p of
        Some t \<Rightarrow> process_parts ps image_data (response_text @ t @ newline)
      | None \<Rightarrow>
          (case inline_data p of
             Some b \<Rightarrow> process_parts ps (data b) response_text
           | None \<Rightarrow> process_parts ps image_data response_text))"

text \<open>Truth value of \<open>image_data\<close>: \<open>None\<close> and the empty bytes are false.\<close>

definition truthy :: "bytes option \<Rightarrow> bool" where
  "truthy v = (case v of None \<Rightarrow> False | Some d \<Rightarrow> d \<noteq> [])"

text \<open>The file name of line 63 and the arguments of \<open>messages.create\<close> (lines 74-83).\<close>

definition generated_filename :: "'img env \<Rightarrow> pystr" where
  "generated_filename e = ascii ''generated_'' @ take 8 (uuid4_hex e) @ ascii ''.png''"

definition media_message :: "'img env \<Rightarrow> pystr \<Rightarrow> pystr option \<Rightarrow> pystr \<Rightarrow> outbound" where
  "media_message e incoming_msg from_number image_filename =
     (let ngrok_url = getenv e (ascii ''NGROK_URL'') (ascii ''https://4e8be9ba5910.ngrok-free.app'');
          image_url = ngrok_url @ ascii ''/images/'' @ image_filename
      in \<lparr>body = caption incoming_msg,
          from_ = ascii ''whatsapp:+14155238886'',
          to = from_number,
          media_url = [image_url]\<rparr>)"

text \<open>The branch \<open>if image_data:\<close> (lines 62-90).\<close>

definition image_branch ::
  "'img env \<Rightarrow> pystr \<Rightarrow> pystr option \<Rightarrow> bytes \<Rightarrow> world \<Rightarrow> (exn + twiml) \<times> world" where
  "image_branch e incoming_msg from_number image_data w =
     (let image_filename = generated_filename e in
      case Image_open e image_data of
        Inl x \<Rightarrow> (Inl x, w)
      | Inr img \<Rightarrow>
          (case Image_save e img image_filename of
             Inl x \<Rightarrow> (Inl x, w)
           | Inr stored \<Rightarrow>
               (let w1 = w\<lparr>files := (files w)(image_filename \<mapsto> stored)\<rparr>;
                    w2 = logger_info (ascii ''Image saved as: '' @ image_filename) w1;
                    w3 = w2\<lparr>generated_images := (generated_images w2)(image_filename \<mapsto> True)\<rparr>;
                    request = media_message e incoming_msg from_number image_filename;
                    w4 = w3\<lparr>created_messages := created_messages w3 @ [request]\<rparr>
                in case messages_create e request of
                     Inl x \<Rightarrow> (Inl x, w4)
                   | Inr m \<Rightarrow>
                       (Inr (message success_text MessagingResponse),
                        logger_info (ascii ''Image sent via Twilio, SID: '' @ format_opt (sid m)) w4))))"

text \<open>The branch \<open>else:\<close> (lines 93-99).\<close>

definition no_image_branch :: "pystr \<Rightarrow> twiml" where
  "no_image_branch response_text =
     (if response_text \<noteq> []
      then message (no_image_notice @ response_text) MessagingResponse
      else message could_not_generate_text MessagingResponse)"

text \<open>The body of the \<open>try\<close> (lines 43-99): the reply, or the exception that left it.\<close>

definition try_body ::
  "'img env \<Rightarrow> pystr \<Rightarrow> pystr option \<Rightarrow> world \<Rightarrow> (exn + twiml) \<times> world" where
  "try_body e incoming_msg from_number w =
     (let w1 = logger_info (ascii ''Generating image for prompt: '' @ incoming_msg) w;
          w2 = w1\<lparr>generate_calls :=
                    generate_calls w1 @ [(ascii ''gemini-2.5-flash-image'', [incoming_msg])]\<rparr>
      in case generate_content e (ascii ''gemini-2.5-flash-image'') [incoming_msg] of
           Inl x \<Rightarrow> (Inl x, w2)
         | Inr r \<Rightarrow>
             (case first_candidate_parts r of
                Inl x \<Rightarrow> (Inl x, w2)
              | Inr ps \<Rightarrow>
                  (case process_parts ps None [] of
                     (image_data, response_text) \<Rightarrow>
                       if truthy image_data
                       then image_branch e incoming_msg from_number (the image_data) w2
                       else (Inr (no_image_branch response_text), w2))))"

text \<open>
  The form of the request is the list of its fields in the order received; \<open>get\<close> returns
  the first value of a field.
\<close>

type_synonym form = "(pystr \<times> pystr) list"

definition form_get :: "form \<Rightarrow> pystr \<Rightarrow> pystr option" where
  "form_get f k = map_of f k"

definition form_get_default :: "form \<Rightarrow> pystr \<Rightarrow> pystr \<Rightarrow> pystr" where
  "form_get_default f k d = (case map_of f k of None \<Rightarrow> d | Some v \<Rightarrow> v)"

definition incoming_whatsapp :: "'img env \<Rightarrow> form \<Rightarrow> world \<Rightarrow> twiml \<times> world" where
  "incoming_whatsapp e f w =
     (let incoming_msg = strip (form_get_default f (ascii ''Body'') []);
          from_number = form_get f (ascii ''From'');
          w1 = logger_info (ascii ''Received message from '' @ format_opt from_number
                            @ ascii '': '' @ incoming_msg) w
      in if incoming_msg = [] then (MessagingResponse, w1)
         else (case try_body e incoming_msg from_number w1 of
                 (Inr reply, w2) \<Rightarrow> (reply, w2)
               | (Inl x, w2) \<Rightarrow>
                   (message error_text MessagingResponse,
                    logger_error (ascii ''An error occurred: '' @ str_exn x) w2)))"

section \<open>serve_image\<close>

datatype http_response =
    SentFile bytes pystr
  | BodyStatus pystr nat

text \<open>The message of the operating system's error for a missing file.\<close>

definition no_such_file :: "pystr \<Rightarrow> exn" where
  "no_such_file filename =
     FileNotFoundError (ascii ''[Errno 2] No such file or directory: '' @ [39] @ filename @ [39])"

text \<open>
  What the file system answers to the image endpoint. The web framework resolves a relative
  name against the root path of the application, which is the working directory when the
  program is started from its own directory: \<open>root_dir\<close> is \<open>None\<close> then, and otherwise
  holds the files of that other directory. \<open>open_error\<close> is the error with which the
  operating system refuses to open a name, if it does (a name longer than the system
  allows, a name with a NUL character, a directory, a file without read permission).
\<close>

record fs_env =
  root_dir :: "(pystr \<rightharpoonup> bytes) option"
  open_error :: "pystr \<Rightarrow> exn option"

definition served_files :: "fs_env \<Rightarrow> world \<Rightarrow> (pystr \<rightharpoonup> bytes)" where
  "served_files fs w = (case root_dir fs of None \<Rightarrow> files w | Some m \<Rightarrow> m)"

text \<open>
  \<open>send_file\<close> raises what the operating system raises: its refusal to open the name, or
  \<open>FileNotFoundError\<close> when the served directory has no such file.
\<close>

definition send_file :: "fs_env \<Rightarrow> pystr \<Rightarrow> pystr \<Rightarrow> world \<Rightarrow> exn + http_response" where
  "send_file fs filename mimetype w =
     (case open_error fs filename of
        Some x \<Rightarrow> Inl x
      | None \<Rightarrow>
          (case served_files fs w filename of
             None \<Rightarrow> Inl (no_such_file filename)
           | Some b \<Rightarrow> Inr (SentFile b mimetype)))"

text \<open>
  The handler catches \<open>FileNotFoundError\<close> only (line 113); any other exception of
  \<open>send_file\<close> leaves it.
\<close>

definition serve_image :: "fs_env \<Rightarrow> pystr \<Rightarrow> world \<Rightarrow> (exn + http_response) \<times> world" where
  "serve_image fs filename w =
     (let w1 = logger_info (ascii ''Serving image: '' @ filename) w in
      case send_file fs filename (ascii ''image/png'') w1 of
        Inr r \<Rightarrow> (Inr r, w1)
      | Inl x \<Rightarrow>
          if is_FileNotFoundError x
          then (Inr (BodyStatus (ascii ''Image not found'') 404),
                logger_error (ascii ''Image not found: '' @ filename) w1)
          else (Inl x, w1))"

section \<open>cleanup_generated_images\<close>

text \<open>
  The operating system at shutdown: the directory listing in the order it is read, and the
  exception with which removing a file fails, if it does.
\<close>

record os_env =
  listdir :: "pystr list"
  remove_error :: "pystr \<Rightarrow> exn option"

text \<open>
  The pattern \<open>generated_*.png\<close>, matched against a file name letter by letter (names are
  case-sensitive, as on a POSIX file system).
\<close>

definition fnmatch_generated :: "pystr \<Rightarrow> bool" where
  "fnmatch_generated name =
     (14 \<le> length name \<and> take 10 name = ascii ''generated_''
      \<and> drop (length name - 4) name = ascii ''.png'')"

definition glob_generated :: "os_env \<Rightarrow> pystr list" where
  "glob_generated os = filter fnmatch_generated (listdir os)"

definition os_remove :: "os_env \<Rightarrow> pystr \<Rightarrow> world \<Rightarrow> exn + world" where
  "os_remove os filename w =
     (case remove_error os filename of
        Some x \<Rightarrow> Inl x
      | None \<Rightarrow>
          (case files w filename of
             None \<Rightarrow> Inl (no_such_file filename)
           | Some b \<Rightarrow> Inr (w\<lparr>files := (files w)(filename := None)\<rparr>)))"

text \<open>The \<open>for\<close> loop inside the \<open>try\<close>: an exception leaves the loop.\<close>

fun cleanup_loop :: "os_env \<Rightarrow> pystr list \<Rightarrow> world \<Rightarrow> exn option \<times> world" where
  "cleanup_loop os [] w = (None, w)"
| "cleanup_loop os (filename # rest) w =
     (case os_remove os filename w of
        Inl x \<Rightarrow> (Some x, w)
      | Inr w1 \<Rightarrow> cleanup_loop os rest (logger_info (ascii ''Cleaned up: '' @ filename) w1))"

definition cleanup_generated_images :: "os_env \<Rightarrow> world \<Rightarrow> world" where
  "cleanup_generated_images os w =
     (case cleanup_loop os (glob_generated os) w of
        (None, w1) \<Rightarrow> w1
      | (Some x, w1) \<Rightarrow> logger_error (ascii ''Cleanup error: '' @ str_exn x) w1)"

section \<open>Concrete inputs\<close>

text \<open>A response with a single candidate whose content has the given parts.\<close>

definition with_parts :: "part list \<Rightarrow> response" where
  "with_parts ps = GenerateContentResponse (Some [Candidate (Some (Content (Some ps)))])"

definition text_part :: "pystr \<Rightarrow> part" where
  "text_part t = Part (Some t) None"

definition image_part :: "bytes \<Rightarrow> part" where
  "image_part d = Part None (Some (Blob (Some d)))"

text \<open>
  The scenario of the specification: the body \<open>a red bicycle\<close>, a response with one text
  part and one image part, an imaging library that accepts data starting with the PNG
  signature byte and writes it back unchanged, and a provider that accepts the message.
\<close>

definition png_bytes :: bytes where
  "png_bytes = [0x89, 0x50, 0x4E, 0x47]"

definition other_png_bytes :: bytes where
  "other_png_bytes = [0x89, 0x50, 0x4E, 0x47, 0x0D]"

definition demo_form :: form where
  "demo_form = [(ascii ''Body'', ascii ''a red bicycle''),
                (ascii ''From'', ascii ''whatsapp:+15551234567'')]"

definition blank_form :: form where
  "blank_form = [(ascii ''Body'', ascii ''   ''),
                 (ascii ''From'', ascii ''whatsapp:+15551234567'')]"

definition demo_env :: "part list \<Rightarrow> bytes env" where
  "demo_env ps =
     \<lparr>generate_content = (\<lambda>m c. Inr (with_parts ps)),
      uuid4_hex = ascii ''1b9d6bcd4a2f4c07bbfd1a73e5c0b5aa'',
      Image_open = (\<lambda>b. if take 1 b = [0x89] then Inr b
                         else Inl (LibraryError (ascii ''cannot identify image file''))),
      Image_save = (\<lambda>img name. Inr img),
      environ = Map.empty,
      messages_create = (\<lambda>r. Inr (MessageInstance (Some (ascii ''SM01''))))\<rparr>"

definition world0 :: world where
  "world0 = \<lparr>files = Map.empty, generated_images = Map.empty, generate_calls = [],
             created_messages = [], logged = []\<rparr>"

text \<open>The texts of the parts that carry one, in order.\<close>

fun part_texts :: "part list \<Rightarrow> pystr list" where
  "part_texts [] = []"
| "part_texts (p # ps) =
     (case part_text p of Some t \<Rightarrow> t # part_texts ps | None \<Rightarrow> part_texts ps)"

text \<open>A part with its inline data taken away.\<close>

definition without_image :: "part \<Rightarrow> part" where
  "without_image p = Part (part_text p) None"

text \<open>
  The specification's wording of the response-text buffer, "fragments joined by newline":
  a newline between consecutive fragments, as \<open>"\n".join\<close> gives.
\<close>

fun join_newline :: "pystr list \<Rightarrow> pystr" where
  "join_newline [] = []"
| "join_newline [t] = t"
| "join_newline (t # ts) = t @ newline @ join_newline ts"

text \<open>
  A shutdown with two generated images in the directory, the first of which the operating
  system refuses to delete.
\<close>

definition demo_os :: os_env where
  "demo_os =
     \<lparr>listdir = [ascii ''generated_aaaaaaaa.png'', ascii ''app.py'',
                 ascii ''generated_bbbbbbbb.png''],
      remove_error = (\<lambda>name. if name = ascii ''generated_aaaaaaaa.png''
                               then Some (LibraryError (ascii ''Permission denied''))
                               else None)\<rparr>"

definition demo_shutdown_world :: world where
  "demo_shutdown_world =
     world0\<lparr>files := [ascii ''generated_aaaaaaaa.png'' \<mapsto> png_bytes,
                       ascii ''app.py'' \<mapsto> [],
                       ascii ''generated_bbbbbbbb.png'' \<mapsto> other_png_bytes]\<rparr>"

text \<open>
  A file system that serves the working directory and refuses names of more than 255
  characters, and a name of 300 characters.
\<close>

definition demo_fs :: fs_env where
  "demo_fs =
     \<lparr>root_dir = None,
      open_error = (\<lambda>name. if 255 < length name
                             then Some (OSError (ascii ''[Errno 36] File name too long''))
                             else None)\<rparr>"

definition long_name :: pystr where
  "long_name = replicate 300 97"

section \<open>Facts about the concrete inputs and about strip\<close>

lemma strip_empty_iff: "strip s = [] \<longleftrightarrow> (\<forall>c\<in>set s. py_isspace c)"
proof -
  have "strip s = [] \<longleftrightarrow> (\<forall>c\<in>set (dropWhile py_isspace s). py_isspace c)"
    by (simp add: strip_def)
  also have "\<dots> \<longleftrightarrow> dropWhile py_isspace s = []"
    by (metis hd_dropWhile hd_in_set empty_iff list.set(1))
  also have "\<dots> \<longleftrightarrow> (\<forall>c\<in>set s. py_isspace c)"
    by simp
  finally show ?thesis .
qed

lemma demo_body:
  "strip (form_get_default demo_form (ascii ''Body'') []) = ascii ''a red bicycle''"
  by (simp add: strip_def ascii_def py_isspace_def form_get_default_def demo_form_def)

lemma demo_body_nonempty: "strip (form_get_default demo_form (ascii ''Body'') []) \<noteq> []"
  by (simp add: demo_body) (simp add: ascii_def)

lemma blank_body: "form_get_default blank_form (ascii ''Body'') [] = ascii ''   ''"
  by (simp add: form_get_default_def blank_form_def)

lemma blank_body_isspace:
  "\<forall>c\<in>set (form_get_default blank_form (ascii ''Body'') []). py_isspace c"
  by (simp add: blank_body) (simp add: ascii_def py_isspace_def)

section \<open>Blank messages\<close>

text \<open>
  Claim C5. When the \<open>Body\<close> field is missing, empty or made of whitespace only, the
  handler returns a reply with no message, and it issues no request to the generation
  service, writes no file, registers no file name and issues no request to the messaging
  provider.
\<close>

theorem blank_body_empty_reply:
  assumes "\<forall>c\<in>set (form_get_default f (ascii ''Body'') []). py_isspace c"
  shows "fst (incoming_whatsapp e f w) = []
       \<and> generate_calls (snd (incoming_whatsapp e f w)) = generate_calls w
       \<and> files (snd (incoming_whatsapp e f w)) = files w
       \<and> generated_images (snd (incoming_whatsapp e f w)) = generated_images w
       \<and> created_messages (snd (incoming_whatsapp e f w)) = created_messages w"
proof -
  from assms have "strip (form_get_default f (ascii ''Body'') []) = []"
    by (simp add: strip_empty_iff)
  then show ?thesis
    by (simp add: incoming_whatsapp_def Let_def MessagingResponse_def logger_info_def)
qed

theorem blank_body_empty_reply_witness:
  "list_all py_isspace (form_get_default blank_form (ascii ''Body'') [])
   \<and> fst (incoming_whatsapp (demo_env []) blank_form world0) = []
   \<and> generate_calls (snd (incoming_whatsapp (demo_env []) blank_form world0)) = []
   \<and> created_messages (snd (incoming_whatsapp (demo_env []) blank_form world0)) = []
   \<and> files (snd (incoming_whatsapp (demo_env []) blank_form world0)) = Map.empty"
  using blank_body_empty_reply [OF blank_body_isspace, of "demo_env []" world0]
    blank_body_isspace
  by (simp add: world0_def list_all_iff)

section \<open>A failing generation call\<close>

lemma try_body_generate_raises:
  "generate_content e (ascii ''gemini-2.5-flash-image'') [m] = Inl x \<Longrightarrow>
   try_body e m fr w =
     (Inl x, (logger_info (ascii ''Generating image for prompt: '' @ m) w)
        \<lparr>generate_calls := generate_calls w @ [(ascii ''gemini-2.5-flash-image'', [m])]\<rparr>)"
  by (simp add: try_body_def Let_def logger_info_def)

text \<open>
  Claim C4. For a request with a non-blank body, when the call to the generation service
  raises, the reply is the single generic error text, and the files, the registry of
  generated images and the requests issued to the messaging provider are as before.
\<close>

theorem generation_error_leaves_no_trace:
  assumes "strip (form_get_default f (ascii ''Body'') []) \<noteq> []"
    and "generate_content e (ascii ''gemini-2.5-flash-image'')
           [strip (form_get_default f (ascii ''Body'') [])] = Inl x"
  shows "fst (incoming_whatsapp e f w) = [error_text]
       \<and> files (snd (incoming_whatsapp e f w)) = files w
       \<and> generated_images (snd (incoming_whatsapp e f w)) = generated_images w
       \<and> created_messages (snd (incoming_whatsapp e f w)) = created_messages w"
  using assms
  by (simp add: incoming_whatsapp_def Let_def try_body_generate_raises
      message_def MessagingResponse_def logger_info_def logger_error_def)

theorem generation_error_leaves_no_trace_witness:
  "strip (form_get_default demo_form (ascii ''Body'') []) \<noteq> []
   \<and> fst (incoming_whatsapp
        ((demo_env [])\<lparr>generate_content := \<lambda>m c. Inl (LibraryError (ascii ''503 UNAVAILABLE''))\<rparr>)
        demo_form world0) = [error_text]
   \<and> files (snd (incoming_whatsapp
        ((demo_env [])\<lparr>generate_content := \<lambda>m c. Inl (LibraryError (ascii ''503 UNAVAILABLE''))\<rparr>)
        demo_form world0)) = Map.empty
   \<and> created_messages (snd (incoming_whatsapp
        ((demo_env [])\<lparr>generate_content := \<lambda>m c. Inl (LibraryError (ascii ''503 UNAVAILABLE''))\<rparr>)
        demo_form world0)) = []"
  using generation_error_leaves_no_trace [OF demo_body_nonempty,
      of "(demo_env [])\<lparr>generate_content := \<lambda>m c. Inl (LibraryError (ascii ''503 UNAVAILABLE''))\<rparr>"
         "LibraryError (ascii ''503 UNAVAILABLE'')" world0]
    demo_body_nonempty
  by (simp add: world0_def)

section \<open>The handler around the try block\<close>

lemma texts_distinct:
  "success_text \<noteq> could_not_generate_text" "success_text \<noteq> error_text"
  "could_not_generate_text \<noteq> error_text"
  "no_image_notice @ txt \<noteq> success_text"
  "no_image_notice @ txt \<noteq> could_not_generate_text"
  "no_image_notice @ txt \<noteq> error_text"
  by (simp_all add: success_text_def could_not_generate_text_def error_text_def
      no_image_notice_def ascii_def)

lemma incoming_whatsapp_nonblank:
  assumes "strip (form_get_default f (ascii ''Body'') []) \<noteq> []"
  shows "incoming_whatsapp e f w =
     (case try_body e (strip (form_get_default f (ascii ''Body'') [])) (form_get f (ascii ''From''))
             (logger_info (ascii ''Received message from '' @ format_opt (form_get f (ascii ''From''))
                            @ ascii '': '' @ strip (form_get_default f (ascii ''Body'') [])) w) of
        (Inr reply, w2) \<Rightarrow> (reply, w2)
      | (Inl x, w2) \<Rightarrow> ([error_text],
                    logger_error (ascii ''An error occurred: '' @ str_exn x) w2))"
  using assms by (simp add: incoming_whatsapp_def Let_def message_def MessagingResponse_def
      split: prod.splits sum.splits)

lemma incoming_whatsapp_raised:
  assumes "strip (form_get_default f (ascii ''Body'') []) \<noteq> []"
    and "\<And>w1. fst (try_body e (strip (form_get_default f (ascii ''Body'') []))
                   (form_get f (ascii ''From'')) w1) = Inl x"
  shows "fst (incoming_whatsapp e f w) = [error_text]
       \<and> last (logged (snd (incoming_whatsapp e f w)))
           = ERROR (ascii ''An error occurred: '' @ str_exn x)"
proof -
  let ?w1 = "logger_info (ascii ''Received message from '' @ format_opt (form_get f (ascii ''From''))
                            @ ascii '': '' @ strip (form_get_default f (ascii ''Body'') [])) w"
  obtain r w2 where tb: "try_body e (strip (form_get_default f (ascii ''Body'') []))
                   (form_get f (ascii ''From'')) ?w1 = (r, w2)"
    by (cases "try_body e (strip (form_get_default f (ascii ''Body'') []))
                   (form_get f (ascii ''From'')) ?w1")
  with assms(2) [of ?w1] have "r = Inl x" by simp
  with tb assms(1) show ?thesis
    by (simp add: incoming_whatsapp_nonblank logger_error_def)
qed

lemma try_body_raises_generate:
  "generate_content e (ascii ''gemini-2.5-flash-image'') [m] = Inl x \<Longrightarrow>
   fst (try_body e m fr w) = Inl x"
  by (simp add: try_body_def Let_def)

lemma try_body_raises_parse:
  "generate_content e (ascii ''gemini-2.5-flash-image'') [m] = Inr r \<Longrightarrow>
   first_candidate_parts r = Inl x \<Longrightarrow> fst (try_body e m fr w) = Inl x"
  by (simp add: try_body_def Let_def)

lemma try_body_image:
  "generate_content e (ascii ''gemini-2.5-flash-image'') [m] = Inr r \<Longrightarrow>
   first_candidate_parts r = Inr ps \<Longrightarrow>
   fst (process_parts ps None []) = Some d \<Longrightarrow> d \<noteq> [] \<Longrightarrow>
   try_body e m fr w =
     image_branch e m fr d
       ((logger_info (ascii ''Generating image for prompt: '' @ m) w)
          \<lparr>generate_calls := generate_calls w @ [(ascii ''gemini-2.5-flash-image'', [m])]\<rparr>)"
  by (cases "process_parts ps None []")
     (simp add: try_body_def Let_def truthy_def logger_info_def)

lemma image_branch_raises_open:
  "Image_open e d = Inl x \<Longrightarrow> fst (image_branch e m fr d w) = Inl x"
  by (simp add: image_branch_def Let_def)

lemma image_branch_raises_save:
  "Image_open e d = Inr img \<Longrightarrow> Image_save e img (generated_filename e) = Inl x \<Longrightarrow>
   fst (image_branch e m fr d w) = Inl x"
  by (simp add: image_branch_def Let_def)

lemma image_branch_raises_create:
  "Image_open e d = Inr img \<Longrightarrow> Image_save e img (generated_filename e) = Inr stored \<Longrightarrow>
   messages_create e (media_message e m fr (generated_filename e)) = Inl x \<Longrightarrow>
   fst (image_branch e m fr d w) = Inl x"
  by (simp add: image_branch_def Let_def)

lemma image_branch_reply:
  "fst (image_branch e m fr d w) = Inr reply \<Longrightarrow> reply = [success_text]"
  by (auto simp: image_branch_def Let_def message_def MessagingResponse_def
      split: sum.splits)

lemma try_body_reply:
  "fst (try_body e m fr w) = Inr reply \<Longrightarrow>
   reply = [success_text] \<or> (\<exists>txt. txt \<noteq> [] \<and> reply = [no_image_notice @ txt])
   \<or> reply = [could_not_generate_text]"
  by (auto simp: try_body_def Let_def no_image_branch_def message_def MessagingResponse_def
      split: sum.splits prod.splits if_splits dest: image_branch_reply)

lemma first_candidate_parts_with_parts: "first_candidate_parts (with_parts ps) = Inr ps"
  by (simp add: first_candidate_parts_def with_parts_def)

lemma demo_env_simps:
  "generate_content (demo_env ps) m c = Inr (with_parts ps)"
  "Image_open (demo_env ps) b = (if take 1 b = [0x89] then Inr b
                         else Inl (LibraryError (ascii ''cannot identify image file'')))"
  "Image_save (demo_env ps) img name = Inr img"
  "environ (demo_env ps) = Map.empty"
  "messages_create (demo_env ps) r = Inr (MessageInstance (Some (ascii ''SM01'')))"
  "uuid4_hex (demo_env ps) = ascii ''1b9d6bcd4a2f4c07bbfd1a73e5c0b5aa''"
  by (simp_all add: demo_env_def)

lemma demo_filename:
  "generated_filename ((demo_env ps)\<lparr>messages_create := mc\<rparr>) = ascii ''generated_1b9d6bcd.png''"
  "generated_filename (demo_env ps) = ascii ''generated_1b9d6bcd.png''"
  by (simp_all add: generated_filename_def demo_env_simps ascii_def)

lemma demo_body_value: "ascii ''a red bicycle'' \<noteq> []"
  by (simp add: ascii_def)

section \<open>One acknowledgment for every non-blank message\<close>

text \<open>
  Claim C2. For a request whose body is not blank the handler returns exactly one message,
  and that message is the success text, the no-image notice followed by a non-empty
  response text, the could-not-generate text, or the generic error text; these four kinds
  of text are pairwise different.
\<close>

theorem exactly_one_acknowledgment:
  assumes "strip (form_get_default f (ascii ''Body'') []) \<noteq> []"
  shows "length (fst (incoming_whatsapp e f w)) = 1
       \<and> (fst (incoming_whatsapp e f w) = [success_text]
          \<or> (\<exists>txt. txt \<noteq> [] \<and> fst (incoming_whatsapp e f w) = [no_image_notice @ txt])
          \<or> fst (incoming_whatsapp e f w) = [could_not_generate_text]
          \<or> fst (incoming_whatsapp e f w) = [error_text])
       \<and> success_text \<noteq> could_not_generate_text \<and> success_text \<noteq> error_text
       \<and> could_not_generate_text \<noteq> error_text
       \<and> (\<forall>txt. no_image_notice @ txt \<noteq> success_text
               \<and> no_image_notice @ txt \<noteq> could_not_generate_text
               \<and> no_image_notice @ txt \<noteq> error_text)"
proof -
  let ?m = "strip (form_get_default f (ascii ''Body'') [])"
  let ?w1 = "logger_info (ascii ''Received message from '' @ format_opt (form_get f (ascii ''From''))
                            @ ascii '': '' @ ?m) w"
  obtain r w2 where tb: "try_body e ?m (form_get f (ascii ''From'')) ?w1 = (r, w2)"
    by (cases "try_body e ?m (form_get f (ascii ''From'')) ?w1")
  have alt: "fst (incoming_whatsapp e f w) = [success_text]
          \<or> (\<exists>txt. txt \<noteq> [] \<and> fst (incoming_whatsapp e f w) = [no_image_notice @ txt])
          \<or> fst (incoming_whatsapp e f w) = [could_not_generate_text]
          \<or> fst (incoming_whatsapp e f w) = [error_text]"
  proof (cases r)
    case (Inl x)
    with tb assms show ?thesis by (simp add: incoming_whatsapp_nonblank)
  next
    case (Inr reply)
    with tb have "fst (try_body e ?m (form_get f (ascii ''From'')) ?w1) = Inr reply" by simp
    from try_body_reply [OF this] Inr tb assms show ?thesis
      by (auto simp: incoming_whatsapp_nonblank)
  qed
  then have "length (fst (incoming_whatsapp e f w)) = 1" by auto
  with alt show ?thesis by (simp add: texts_distinct)
qed

theorem exactly_one_acknowledgment_witness:
  "strip (form_get_default demo_form (ascii ''Body'') []) \<noteq> []
   \<and> length (fst (incoming_whatsapp
         (demo_env [text_part (ascii ''Here you go''), image_part png_bytes])
         demo_form world0)) = 1
   \<and> fst (incoming_whatsapp
         (demo_env [text_part (ascii ''Here you go''), image_part png_bytes])
         demo_form world0) = [success_text]"
proof -
  have "fst (incoming_whatsapp
         (demo_env [text_part (ascii ''Here you go''), image_part png_bytes])
         demo_form world0) = [success_text]"
    using demo_body_nonempty
    by (simp add: incoming_whatsapp_def Let_def try_body_def image_branch_def truthy_def
        text_part_def image_part_def png_bytes_def message_def MessagingResponse_def
        demo_env_simps first_candidate_parts_with_parts split: prod.splits sum.splits)
  with exactly_one_acknowledgment [OF demo_body_nonempty,
      of "demo_env [text_part (ascii ''Here you go''), image_part png_bytes]" world0]
    demo_body_nonempty
  show ?thesis by simp
qed

section \<open>Exceptions stop at the handler\<close>

text \<open>
  Claim C3. For a request whose body is not blank, when the generation call raises, or
  taking the response apart raises, or (an image payload having been captured) decoding
  it, saving it or the provider's send raises, the handler returns the single generic
  error text and logs the exception; as a total function returning a reply, the handler
  lets no such exception through.
\<close>

theorem pipeline_exceptions_caught:
  assumes nonblank: "msg = strip (form_get_default f (ascii ''Body'') [])" "msg \<noteq> []"
    and raised:
      "generate_content e (ascii ''gemini-2.5-flash-image'') [msg] = Inl x
       \<or> (generate_content e (ascii ''gemini-2.5-flash-image'') [msg] = Inr r
          \<and> (first_candidate_parts r = Inl x
             \<or> (first_candidate_parts r = Inr ps
                \<and> fst (process_parts ps None []) = Some d \<and> d \<noteq> []
                \<and> (Image_open e d = Inl x
                   \<or> (Image_open e d = Inr img
                      \<and> (Image_save e img (generated_filename e) = Inl x
                         \<or> (Image_save e img (generated_filename e) = Inr stored
                            \<and> messages_create e
                                 (media_message e msg (form_get f (ascii ''From''))
                                    (generated_filename e)) = Inl x)))))))"
  shows "fst (incoming_whatsapp e f w) = [error_text]
       \<and> last (logged (snd (incoming_whatsapp e f w)))
           = ERROR (ascii ''An error occurred: '' @ str_exn x)"
proof -
  have "fst (try_body e msg (form_get f (ascii ''From'')) w1) = Inl x" for w1
    using raised
  proof (elim disjE conjE)
    assume "generate_content e (ascii ''gemini-2.5-flash-image'') [msg] = Inl x"
    then show ?thesis by (rule try_body_raises_generate)
  next
    assume "generate_content e (ascii ''gemini-2.5-flash-image'') [msg] = Inr r"
      and "first_candidate_parts r = Inl x"
    then show ?thesis by (rule try_body_raises_parse)
  next
    assume "generate_content e (ascii ''gemini-2.5-flash-image'') [msg] = Inr r"
      "first_candidate_parts r = Inr ps" "fst (process_parts ps None []) = Some d" "d \<noteq> []"
      and "Image_open e d = Inl x"
    then show ?thesis by (simp add: try_body_image image_branch_raises_open)
  next
    assume "generate_content e (ascii ''gemini-2.5-flash-image'') [msg] = Inr r"
      "first_candidate_parts r = Inr ps" "fst (process_parts ps None []) = Some d" "d \<noteq> []"
      and "Image_open e d = Inr img" "Image_save e img (generated_filename e) = Inl x"
    then show ?thesis by (simp add: try_body_image image_branch_raises_save)
  next
    assume "generate_content e (ascii ''gemini-2.5-flash-image'') [msg] = Inr r"
      "first_candidate_parts r = Inr ps" "fst (process_parts ps None []) = Some d" "d \<noteq> []"
      and "Image_open e d = Inr img" "Image_save e img (generated_filename e) = Inr stored"
        "messages_create e (media_message e msg (form_get f (ascii ''From''))
           (generated_filename e)) = Inl x"
    then show ?thesis by (simp add: try_body_image image_branch_raises_create)
  qed
  with nonblank show ?thesis
    using incoming_whatsapp_raised [of f e x w] by simp
qed

theorem pipeline_exceptions_caught_witness:
  "fst (incoming_whatsapp
         ((demo_env [image_part png_bytes])
            \<lparr>messages_create := \<lambda>r. Inl (LibraryError (ascii ''HTTP 401''))\<rparr>)
         demo_form world0) = [error_text]
   \<and> last (logged (snd (incoming_whatsapp
         ((demo_env [image_part png_bytes])
            \<lparr>messages_create := \<lambda>r. Inl (LibraryError (ascii ''HTTP 401''))\<rparr>)
         demo_form world0))) = ERROR (ascii ''An error occurred: HTTP 401'')
   \<and> fst (incoming_whatsapp (demo_env [image_part [0x00]]) demo_form world0) = [error_text]
   \<and> fst (incoming_whatsapp
         ((demo_env [])\<lparr>generate_content := \<lambda>m c. Inr (GenerateContentResponse (Some []))\<rparr>)
         demo_form world0) = [error_text]"
proof -
  let ?e1 = "(demo_env [image_part png_bytes])
            \<lparr>messages_create := \<lambda>r. Inl (LibraryError (ascii ''HTTP 401''))\<rparr>"
  let ?e2 = "demo_env [image_part [0x00]]"
  let ?e3 = "(demo_env [])\<lparr>generate_content := \<lambda>m c. Inr (GenerateContentResponse (Some []))\<rparr>"
  have 1: "fst (incoming_whatsapp ?e1 demo_form world0) = [error_text]
     \<and> last (logged (snd (incoming_whatsapp ?e1 demo_form world0)))
         = ERROR (ascii ''An error occurred: '' @ str_exn (LibraryError (ascii ''HTTP 401'')))"
    by (rule pipeline_exceptions_caught [where msg = "ascii ''a red bicycle''"
          and r = "with_parts [image_part png_bytes]" and ps = "[image_part png_bytes]"
          and d = png_bytes and img = png_bytes and stored = png_bytes])
       (simp_all add: demo_body demo_body_value demo_env_simps first_candidate_parts_with_parts
          image_part_def png_bytes_def)
  have 2: "fst (incoming_whatsapp ?e2 demo_form world0) = [error_text]
     \<and> last (logged (snd (incoming_whatsapp ?e2 demo_form world0)))
         = ERROR (ascii ''An error occurred: ''
                  @ str_exn (LibraryError (ascii ''cannot identify image file'')))"
    by (rule pipeline_exceptions_caught [where msg = "ascii ''a red bicycle''"
          and r = "with_parts [image_part [0x00]]" and ps = "[image_part [0x00]]"
          and d = "[0x00]"])
       (simp_all add: demo_body demo_body_value demo_env_simps first_candidate_parts_with_parts
          image_part_def)
  have 3: "fst (incoming_whatsapp ?e3 demo_form world0) = [error_text]
     \<and> last (logged (snd (incoming_whatsapp ?e3 demo_form world0)))
         = ERROR (ascii ''An error occurred: ''
                  @ str_exn (IndexError (ascii ''list index out of range'')))"
    by (rule pipeline_exceptions_caught [where msg = "ascii ''a red bicycle''"
          and r = "GenerateContentResponse (Some [])"])
       (simp_all add: demo_body demo_body_value first_candidate_parts_def)
  from 1 2 3 show ?thesis by (simp add: ascii_def)
qed

section \<open>The loop over the parts\<close>

lemma process_parts_append:
  "process_parts (xs @ ys) i t =
     process_parts ys (fst (process_parts xs i t)) (snd (process_parts xs i t))"
  by (induction xs arbitrary: i t) (simp_all split: option.splits)

lemma process_parts_text:
  "snd (process_parts ps i t) = t @ concat (map (\<lambda>x. x @ newline) (part_texts ps))"
  by (induction ps arbitrary: i t) (simp_all split: option.splits)

lemma process_parts_no_capture:
  "\<forall>q\<in>set qs. part_text q \<noteq> None \<or> inline_data q = None \<Longrightarrow>
   fst (process_parts qs i t) = i"
  by (induction qs arbitrary: i t) (auto split: option.splits)

lemma process_parts_source:
  "fst (process_parts ps i t) = Some d \<Longrightarrow>
   i = Some d \<or> (\<exists>p\<in>set ps. part_text p = None \<and> inline_data p = Some (Blob (Some d)))"
proof (induction ps arbitrary: i t)
  case Nil
  then show ?case by simp
next
  case (Cons p ps)
  show ?case
  proof (cases "part_text p")
    case (Some u)
    with Cons.prems have "fst (process_parts ps i (t @ u @ newline)) = Some d" by simp
    from Cons.IH [OF this] show ?thesis by auto
  next
    case None
    show ?thesis
    proof (cases "inline_data p")
      case inl: None
      with None Cons.prems have "fst (process_parts ps i t) = Some d" by simp
      from Cons.IH [OF this] show ?thesis by auto
    next
      case (Some b)
      with None Cons.prems have "fst (process_parts ps (data b) t) = Some d" by simp
      from Cons.IH [OF this] have
        "data b = Some d \<or> (\<exists>p\<in>set ps. part_text p = None \<and> inline_data p = Some (Blob (Some d)))" .
      then show ?thesis
      proof
        assume "data b = Some d"
        then have "b = Blob (Some d)" by (cases b) simp
        with None Some show ?thesis by auto
      next
        assume "\<exists>p\<in>set ps. part_text p = None \<and> inline_data p = Some (Blob (Some d))"
        then show ?thesis by auto
      qed
    qed
  qed
qed

lemma process_parts_text_present:
  "part_text p = Some u \<Longrightarrow>
   process_parts (p # ps) i t = process_parts ps i (t @ u @ newline)"
  by simp

lemma process_parts_ignores_image_of_text_parts:
  "process_parts (map (\<lambda>p. if part_text p \<noteq> None then without_image p else p) ps) i t
     = process_parts ps i t"
  by (induction ps arbitrary: i t) (auto simp: without_image_def split: option.splits)

lemma part_texts_without_image: "part_texts (map without_image xs) = part_texts xs"
  by (induction xs) (simp_all add: without_image_def split: option.splits)

lemma process_parts_without_image:
  "process_parts (map without_image xs) i t = (i, snd (process_parts xs i t))"
proof -
  have "fst (process_parts (map without_image xs) i t) = i"
    by (rule process_parts_no_capture) (simp add: without_image_def)
  moreover have "snd (process_parts (map without_image xs) i t) = snd (process_parts xs i t)"
    by (simp add: process_parts_text part_texts_without_image)
  ultimately show ?thesis by (simp add: prod_eq_iff)
qed

lemma process_parts_capture:
  "part_text p = None \<Longrightarrow> inline_data p = Some b \<Longrightarrow>
   process_parts (xs @ p # qs) i t = process_parts qs (data b) (snd (process_parts xs i t))"
  by (simp add: process_parts_append)

lemma process_parts_earlier_images:
  "part_text p = None \<Longrightarrow> inline_data p = Some b \<Longrightarrow>
   process_parts (map without_image xs @ p # qs) i t = process_parts (xs @ p # qs) i t"
  by (simp add: process_parts_capture process_parts_without_image)

lemma first_candidate_only:
  "first_candidate_parts (GenerateContentResponse (Some (c # cs)))
     = first_candidate_parts (GenerateContentResponse (Some [c]))"
  by (simp add: first_candidate_parts_def)

lemma concat_newline_join:
  "ts \<noteq> [] \<Longrightarrow> concat (map (\<lambda>t. t @ newline) ts) = join_newline ts @ newline"
  by (induction ts rule: join_newline.induct) simp_all

lemma no_inline_data_no_image:
  "\<forall>p\<in>set ps. inline_data p = None \<Longrightarrow> fst (process_parts ps i t) = i"
  by (rule process_parts_no_capture) simp

section \<open>Runs of the handler\<close>

lemma generated_filename_generate_content:
  "generated_filename (e\<lparr>generate_content := g\<rparr>) = generated_filename e"
  by (simp add: generated_filename_def)

lemma media_message_generate_content:
  "media_message (e\<lparr>generate_content := g\<rparr>) m fr n = media_message e m fr n"
  by (simp add: media_message_def getenv_def)

lemma image_branch_generate_content:
  "image_branch (e\<lparr>generate_content := g\<rparr>) m fr d w = image_branch e m fr d w"
  by (simp add: image_branch_def generated_filename_generate_content
      media_message_generate_content Let_def split: sum.splits)

lemma try_body_with_parts:
  "try_body (e\<lparr>generate_content := \<lambda>m k. Inr (with_parts ps)\<rparr>) m fr w =
     (let w2 = (logger_info (ascii ''Generating image for prompt: '' @ m) w)
                 \<lparr>generate_calls := generate_calls w @ [(ascii ''gemini-2.5-flash-image'', [m])]\<rparr>
      in if truthy (fst (process_parts ps None []))
         then image_branch e m fr (the (fst (process_parts ps None []))) w2
         else (Inr (no_image_branch (snd (process_parts ps None []))), w2))"
  by (cases "process_parts ps None []")
     (simp add: try_body_def Let_def first_candidate_parts_with_parts
        image_branch_generate_content logger_info_def)

lemma incoming_whatsapp_parts_cong:
  assumes "process_parts ps None [] = process_parts ps' None []"
  shows "incoming_whatsapp (e\<lparr>generate_content := \<lambda>m k. Inr (with_parts ps)\<rparr>) f w
       = incoming_whatsapp (e\<lparr>generate_content := \<lambda>m k. Inr (with_parts ps')\<rparr>) f w"
proof -
  have "try_body (e\<lparr>generate_content := \<lambda>m k. Inr (with_parts ps)\<rparr>) m fr w1
      = try_body (e\<lparr>generate_content := \<lambda>m k. Inr (with_parts ps')\<rparr>) m fr w1" for m fr w1
    by (simp only: try_body_with_parts assms)
  then show ?thesis
    by (simp only: incoming_whatsapp_def)
qed

lemma image_branch_success:
  assumes "Image_open e d = Inr img"
    and "Image_save e img (generated_filename e) = Inr stored"
    and "messages_create e (media_message e m fr (generated_filename e)) = Inr mi"
  shows "fst (image_branch e m fr d w) = Inr [success_text]"
    and "files (snd (image_branch e m fr d w)) = (files w)(generated_filename e \<mapsto> stored)"
    and "generated_images (snd (image_branch e m fr d w))
           = (generated_images w)(generated_filename e \<mapsto> True)"
    and "created_messages (snd (image_branch e m fr d w))
           = created_messages w @ [media_message e m fr (generated_filename e)]"
  using assms
  by (simp_all add: image_branch_def Let_def logger_info_def message_def MessagingResponse_def)

lemma incoming_whatsapp_image_success:
  assumes "msg = strip (form_get_default f (ascii ''Body'') [])" and "msg \<noteq> []"
    and "generate_content e (ascii ''gemini-2.5-flash-image'') [msg] = Inr r"
    and "first_candidate_parts r = Inr ps"
    and "fst (process_parts ps None []) = Some d" and "d \<noteq> []"
    and "Image_open e d = Inr img"
    and "Image_save e img (generated_filename e) = Inr stored"
    and "messages_create e
           (media_message e msg (form_get f (ascii ''From'')) (generated_filename e)) = Inr mi"
  shows "fst (incoming_whatsapp e f w) = [success_text]"
    and "files (snd (incoming_whatsapp e f w)) = (files w)(generated_filename e \<mapsto> stored)"
    and "generated_images (snd (incoming_whatsapp e f w))
           = (generated_images w)(generated_filename e \<mapsto> True)"
    and "created_messages (snd (incoming_whatsapp e f w))
           = created_messages w
             @ [media_message e msg (form_get f (ascii ''From'')) (generated_filename e)]"
proof -
  let ?fr = "form_get f (ascii ''From'')"
  let ?w1 = "logger_info (ascii ''Received message from '' @ format_opt ?fr
                            @ ascii '': '' @ msg) w"
  let ?w2 = "(logger_info (ascii ''Generating image for prompt: '' @ msg) ?w1)
          \<lparr>generate_calls := generate_calls ?w1 @ [(ascii ''gemini-2.5-flash-image'', [msg])]\<rparr>"
  have tb: "try_body e msg ?fr ?w1 = image_branch e msg ?fr d ?w2"
    using assms(3-6) by (rule try_body_image)
  obtain rp w3 where ib: "image_branch e msg ?fr d ?w2 = (rp, w3)"
    by (cases "image_branch e msg ?fr d ?w2")
  from image_branch_success(1) [OF assms(7-9), of ?w2] ib
  have rp: "rp = Inr [success_text]" by simp
  have run: "incoming_whatsapp e f w = ([success_text], w3)"
    using assms(1,2) tb ib rp by (simp add: incoming_whatsapp_nonblank)
  have w3: "w3 = snd (image_branch e msg ?fr d ?w2)" using ib by simp
  show "fst (incoming_whatsapp e f w) = [success_text]" using run by simp
  show "files (snd (incoming_whatsapp e f w)) = (files w)(generated_filename e \<mapsto> stored)"
    using run w3 image_branch_success(2) [OF assms(7-9), of ?w2]
    by (simp add: logger_info_def)
  show "generated_images (snd (incoming_whatsapp e f w))
           = (generated_images w)(generated_filename e \<mapsto> True)"
    using run w3 image_branch_success(3) [OF assms(7-9), of ?w2]
    by (simp add: logger_info_def)
  show "created_messages (snd (incoming_whatsapp e f w))
           = created_messages w @ [media_message e msg ?fr (generated_filename e)]"
    using run w3 image_branch_success(4) [OF assms(7-9), of ?w2]
    by (simp add: logger_info_def)
qed

lemma try_body_no_image:
  "generate_content e (ascii ''gemini-2.5-flash-image'') [m] = Inr r \<Longrightarrow>
   first_candidate_parts r = Inr ps \<Longrightarrow>
   \<not> truthy (fst (process_parts ps None [])) \<Longrightarrow>
   try_body e m fr w =
     (Inr (no_image_branch (snd (process_parts ps None []))),
      (logger_info (ascii ''Generating image for prompt: '' @ m) w)
          \<lparr>generate_calls := generate_calls w @ [(ascii ''gemini-2.5-flash-image'', [m])]\<rparr>)"
  by (cases "process_parts ps None []")
     (simp add: try_body_def Let_def logger_info_def)

lemma incoming_whatsapp_no_image:
  assumes "msg = strip (form_get_default f (ascii ''Body'') [])" and "msg \<noteq> []"
    and "generate_content e (ascii ''gemini-2.5-flash-image'') [msg] = Inr r"
    and "first_candidate_parts r = Inr ps"
    and "\<not> truthy (fst (process_parts ps None []))"
  shows "fst (incoming_whatsapp e f w) = no_image_branch (snd (process_parts ps None []))"
    and "files (snd (incoming_whatsapp e f w)) = files w"
    and "generated_images (snd (incoming_whatsapp e f w)) = generated_images w"
    and "created_messages (snd (incoming_whatsapp e f w)) = created_messages w"
  using assms(1,2) try_body_no_image [OF assms(3-5)]
  by (simp_all add: incoming_whatsapp_nonblank logger_info_def)

lemma demo_from: "form_get demo_form (ascii ''From'') = Some (ascii ''whatsapp:+15551234567'')"
  by (simp add: form_get_def demo_form_def ascii_def)

lemma demo_image_run:
  assumes "fst (process_parts ps None []) = Some d" and "take 1 d = [0x89]"
  shows "fst (incoming_whatsapp (demo_env ps) demo_form world0) = [success_text]"
    and "files (snd (incoming_whatsapp (demo_env ps) demo_form world0))
           = [ascii ''generated_1b9d6bcd.png'' \<mapsto> d]"
    and "created_messages (snd (incoming_whatsapp (demo_env ps) demo_form world0))
           = [media_message (demo_env ps) (ascii ''a red bicycle'')
                (Some (ascii ''whatsapp:+15551234567'')) (ascii ''generated_1b9d6bcd.png'')]"
proof -
  from assms(2) have ne: "d \<noteq> []" by auto
  note run = incoming_whatsapp_image_success [where e = "demo_env ps" and f = demo_form
      and msg = "ascii ''a red bicycle''" and r = "with_parts ps" and ps = ps and d = d
      and img = d and stored = d and mi = "MessageInstance (Some (ascii ''SM01''))"
      and w = world0,
      OF demo_body [symmetric] demo_body_value demo_env_simps(1)
         first_candidate_parts_with_parts assms(1) ne]
  have o: "Image_open (demo_env ps) d = Inr d" using assms(2) by (simp add: demo_env_simps)
  have s: "Image_save (demo_env ps) d (generated_filename (demo_env ps)) = Inr d"
    by (simp add: demo_env_simps)
  have c: "messages_create (demo_env ps)
      (media_message (demo_env ps) (ascii ''a red bicycle'') (form_get demo_form (ascii ''From''))
         (generated_filename (demo_env ps))) = Inr (MessageInstance (Some (ascii ''SM01'')))"
    by (simp add: demo_env_simps)
  show "fst (incoming_whatsapp (demo_env ps) demo_form world0) = [success_text]"
    using run(1) [OF o s c] .
  show "files (snd (incoming_whatsapp (demo_env ps) demo_form world0))
           = [ascii ''generated_1b9d6bcd.png'' \<mapsto> d]"
    using run(2) [OF o s c] by (simp add: demo_filename world0_def)
  show "created_messages (snd (incoming_whatsapp (demo_env ps) demo_form world0))
           = [media_message (demo_env ps) (ascii ''a red bicycle'')
                (Some (ascii ''whatsapp:+15551234567'')) (ascii ''generated_1b9d6bcd.png'')]"
    using run(4) [OF o s c] by (simp add: demo_filename world0_def demo_from)
qed

lemma demo_no_image_run:
  assumes "\<not> truthy (fst (process_parts ps None []))"
  shows "fst (incoming_whatsapp (demo_env ps) demo_form world0)
           = no_image_branch (snd (process_parts ps None []))"
    and "files (snd (incoming_whatsapp (demo_env ps) demo_form world0)) = Map.empty"
    and "created_messages (snd (incoming_whatsapp (demo_env ps) demo_form world0)) = []"
  using incoming_whatsapp_no_image [where e = "demo_env ps" and f = demo_form
      and msg = "ascii ''a red bicycle''" and r = "with_parts ps" and ps = ps and w = world0,
      OF demo_body [symmetric] demo_body_value demo_env_simps(1)
         first_candidate_parts_with_parts assms]
  by (simp_all add: world0_def)

lemma png_bytes_differ: "other_png_bytes \<noteq> png_bytes"
  by (simp add: other_png_bytes_def png_bytes_def)

lemma png_signature: "take 1 png_bytes = [0x89]" "take 1 other_png_bytes = [0x89]"
  by (simp_all add: other_png_bytes_def png_bytes_def)

section \<open>Parts with text never yield the image\<close>

text \<open>
  Claim C10. A part whose text is present only adds its text and a newline to the response
  text, whatever inline data it carries: the loop gives the same result when the inline
  data of every such part is taken away, and the response text is the texts of the parts,
  each followed by a newline. A captured payload always comes from a part whose text is
  absent. Only the first candidate of the response is looked at.
\<close>

theorem text_parts_never_yield_image:
  "(part_text p = Some u \<longrightarrow>
      process_parts (p # ps) i t = process_parts ps i (t @ u @ newline))
   \<and> process_parts (map (\<lambda>q. if part_text q \<noteq> None then without_image q else q) ps) i t
       = process_parts ps i t
   \<and> snd (process_parts ps i t) = t @ concat (map (\<lambda>x. x @ newline) (part_texts ps))
   \<and> (fst (process_parts ps None t) = Some d \<longrightarrow>
        (\<exists>q\<in>set ps. part_text q = None \<and> inline_data q = Some (Blob (Some d))))
   \<and> first_candidate_parts (GenerateContentResponse (Some (c # cs)))
       = first_candidate_parts (GenerateContentResponse (Some [c]))"
proof (intro conjI impI)
  assume "part_text p = Some u"
  then show "process_parts (p # ps) i t = process_parts ps i (t @ u @ newline)"
    by (rule process_parts_text_present)
next
  show "process_parts (map (\<lambda>q. if part_text q \<noteq> None then without_image q else q) ps) i t
       = process_parts ps i t"
    by (rule process_parts_ignores_image_of_text_parts)
next
  show "snd (process_parts ps i t) = t @ concat (map (\<lambda>x. x @ newline) (part_texts ps))"
    by (rule process_parts_text)
next
  assume "fst (process_parts ps None t) = Some d"
  from process_parts_source [OF this]
  show "\<exists>q\<in>set ps. part_text q = None \<and> inline_data q = Some (Blob (Some d))"
    by simp
next
  show "first_candidate_parts (GenerateContentResponse (Some (c # cs)))
       = first_candidate_parts (GenerateContentResponse (Some [c]))"
    by (rule first_candidate_only)
qed

theorem text_parts_never_yield_image_witness:
  "part_text (Part (Some (ascii ''Here you go'')) (Some (Blob (Some png_bytes))))
     = Some (ascii ''Here you go'')
   \<and> process_parts [Part (Some (ascii ''Here you go'')) (Some (Blob (Some png_bytes)))] None []
       = (None, ascii ''Here you go'' @ newline)
   \<and> fst (process_parts [text_part (ascii ''Here you go''), image_part png_bytes] None [])
       = Some png_bytes
   \<and> part_text (image_part png_bytes) = None"
  using text_parts_never_yield_image
    [of "Part (Some (ascii ''Here you go'')) (Some (Blob (Some png_bytes)))"
        "ascii ''Here you go''" "[]" None "[]" png_bytes]
  by (simp add: text_part_def image_part_def)

section \<open>Which image part is used\<close>

text \<open>
  Claim C1, amended. The payload the loop ends with is that of the last part that has no
  text and has inline data; the run of the handler is the same when the inline data of
  every part before that one is taken away, so no earlier image part has any influence.
\<close>

theorem last_inline_image_is_used:
  assumes "part_text p = None" and "inline_data p = Some b"
    and "\<forall>q\<in>set qs. part_text q \<noteq> None \<or> inline_data q = None"
  shows "fst (process_parts (xs @ p # qs) None []) = data b
       \<and> incoming_whatsapp
           (e\<lparr>generate_content := \<lambda>m k. Inr (with_parts (map without_image xs @ p # qs))\<rparr>) f w
         = incoming_whatsapp
           (e\<lparr>generate_content := \<lambda>m k. Inr (with_parts (xs @ p # qs))\<rparr>) f w"
proof
  from assms show "fst (process_parts (xs @ p # qs) None []) = data b"
    by (simp add: process_parts_capture process_parts_no_capture)
next
  from assms(1,2) have
    "process_parts (map without_image xs @ p # qs) None [] = process_parts (xs @ p # qs) None []"
    by (rule process_parts_earlier_images)
  then show "incoming_whatsapp
           (e\<lparr>generate_content := \<lambda>m k. Inr (with_parts (map without_image xs @ p # qs))\<rparr>) f w
         = incoming_whatsapp
           (e\<lparr>generate_content := \<lambda>m k. Inr (with_parts (xs @ p # qs))\<rparr>) f w"
    by (rule incoming_whatsapp_parts_cong)
qed

theorem last_inline_image_is_used_witness:
  "fst (process_parts ([image_part png_bytes] @ image_part other_png_bytes
                         # [text_part (ascii ''Here you go'')]) None [])
     = Some other_png_bytes
   \<and> incoming_whatsapp
       ((demo_env [])\<lparr>generate_content := \<lambda>m k. Inr (with_parts
          (map without_image [image_part png_bytes] @ image_part other_png_bytes
             # [text_part (ascii ''Here you go'')]))\<rparr>) demo_form world0
     = incoming_whatsapp
       ((demo_env [])\<lparr>generate_content := \<lambda>m k. Inr (with_parts
          ([image_part png_bytes] @ image_part other_png_bytes
             # [text_part (ascii ''Here you go'')]))\<rparr>) demo_form world0"
  using last_inline_image_is_used [of "image_part other_png_bytes" "Blob (Some other_png_bytes)"
      "[text_part (ascii ''Here you go'')]" "[image_part png_bytes]" "demo_env []" demo_form world0]
  by (simp add: image_part_def text_part_def)

text \<open>
  Claim C1 as stated fails: with two image parts the loop ends with the payload of the
  second, the stored file holds the second payload, and without the second part the stored
  file holds the first payload, so the stored file depends on the later part.
\<close>

theorem first_image_not_used_counterexample:
  "fst (process_parts [image_part png_bytes, image_part other_png_bytes] None [])
     = Some other_png_bytes
   \<and> files (snd (incoming_whatsapp (demo_env [image_part png_bytes, image_part other_png_bytes])
                    demo_form world0))
       = [ascii ''generated_1b9d6bcd.png'' \<mapsto> other_png_bytes]
   \<and> files (snd (incoming_whatsapp (demo_env [image_part png_bytes]) demo_form world0))
       = [ascii ''generated_1b9d6bcd.png'' \<mapsto> png_bytes]
   \<and> other_png_bytes \<noteq> png_bytes"
proof -
  have two: "fst (process_parts [image_part png_bytes, image_part other_png_bytes] None [])
     = Some other_png_bytes"
    by (simp add: image_part_def)
  have one: "fst (process_parts [image_part png_bytes] None []) = Some png_bytes"
    by (simp add: image_part_def)
  from two demo_image_run(2) [OF two png_signature(2)] demo_image_run(2) [OF one png_signature(1)]
    png_bytes_differ
  show ?thesis by simp
qed

section \<open>The reply with an image\<close>

text \<open>
  Claim C7, amended. For a request with a non-blank body, when the last part without text
  and with inline data carries a non-empty payload, and decoding, saving and the provider's
  send succeed, the handler writes exactly one file, named \<open>generated_\<close> followed by the
  first eight hexadecimal digits of the UUID and \<open>.png\<close>, registers that name, issues
  exactly one request to the provider whose media URL is the configured base URL followed
  by \<open>/images/\<close> and that name and whose caption holds the trimmed body between quotes,
  and returns the success text.
\<close>

theorem image_reply_pipeline:
  assumes "msg = strip (form_get_default f (ascii ''Body'') [])" and "msg \<noteq> []"
    and "generate_content e (ascii ''gemini-2.5-flash-image'') [msg] = Inr r"
    and "first_candidate_parts r = Inr (xs @ p # qs)"
    and "part_text p = None" and "inline_data p = Some (Blob (Some d))" and "d \<noteq> []"
    and "\<forall>q\<in>set qs. part_text q \<noteq> None \<or> inline_data q = None"
    and "Image_open e d = Inr img"
    and "Image_save e img (generated_filename e) = Inr stored"
    and "messages_create e
           (media_message e msg (form_get f (ascii ''From'')) (generated_filename e)) = Inr mi"
  shows "fst (incoming_whatsapp e f w) = [success_text]
       \<and> files (snd (incoming_whatsapp e f w)) = (files w)(generated_filename e \<mapsto> stored)
       \<and> generated_filename e = ascii ''generated_'' @ take 8 (uuid4_hex e) @ ascii ''.png''
       \<and> generated_images (snd (incoming_whatsapp e f w))
           = (generated_images w)(generated_filename e \<mapsto> True)
       \<and> created_messages (snd (incoming_whatsapp e f w))
           = created_messages w
             @ [\<lparr>body = [0x1F3A8] @ ascii '' Here's your generated image for: ''
                         @ [39] @ msg @ [39],
                 from_ = ascii ''whatsapp:+14155238886'',
                 to = form_get f (ascii ''From''),
                 media_url = [getenv e (ascii ''NGROK_URL'')
                                (ascii ''https://4e8be9ba5910.ngrok-free.app'')
                              @ ascii ''/images/'' @ generated_filename e]\<rparr>]"
proof -
  have cap: "fst (process_parts (xs @ p # qs) None []) = Some d"
    using assms(5,6,8) by (simp add: process_parts_capture process_parts_no_capture)
  note run = incoming_whatsapp_image_success [OF assms(1-4) cap assms(7) assms(9-11)]
  have mm: "media_message e msg (form_get f (ascii ''From'')) (generated_filename e)
      = \<lparr>body = [0x1F3A8] @ ascii '' Here's your generated image for: '' @ [39] @ msg @ [39],
         from_ = ascii ''whatsapp:+14155238886'',
         to = form_get f (ascii ''From''),
         media_url = [getenv e (ascii ''NGROK_URL'')
                        (ascii ''https://4e8be9ba5910.ngrok-free.app'')
                      @ ascii ''/images/'' @ generated_filename e]\<rparr>"
    by (simp add: media_message_def caption_def Let_def)
  show ?thesis
    using run(1) [of w] run(2) [of w] run(3) [of w] run(4) [of w] mm
    by (simp add: generated_filename_def)
qed

theorem image_reply_pipeline_witness:
  "fst (incoming_whatsapp (demo_env [text_part (ascii ''Here you go''), image_part png_bytes])
          demo_form world0) = [success_text]
   \<and> files (snd (incoming_whatsapp
          (demo_env [text_part (ascii ''Here you go''), image_part png_bytes])
          demo_form world0)) = [ascii ''generated_1b9d6bcd.png'' \<mapsto> png_bytes]
   \<and> created_messages (snd (incoming_whatsapp
          (demo_env [text_part (ascii ''Here you go''), image_part png_bytes])
          demo_form world0))
       = [\<lparr>body = [0x1F3A8] @ ascii '' Here's your generated image for: ''
                   @ [39] @ ascii ''a red bicycle'' @ [39],
           from_ = ascii ''whatsapp:+14155238886'',
           to = Some (ascii ''whatsapp:+15551234567''),
           media_url = [ascii ''https://4e8be9ba5910.ngrok-free.app/images/generated_1b9d6bcd.png'']\<rparr>]"
proof -
  let ?e = "demo_env [text_part (ascii ''Here you go''), image_part png_bytes]"
  have ne: "png_bytes \<noteq> []" by (simp add: png_bytes_def)
  have o: "Image_open ?e png_bytes = Inr png_bytes"
    by (simp add: demo_env_simps png_bytes_def)
  have s: "Image_save ?e png_bytes (generated_filename ?e) = Inr png_bytes"
    by (simp add: demo_env_simps)
  have c: "messages_create ?e
      (media_message ?e (ascii ''a red bicycle'') (form_get demo_form (ascii ''From''))
         (generated_filename ?e)) = Inr (MessageInstance (Some (ascii ''SM01'')))"
    by (simp add: demo_env_simps)
  have p1: "first_candidate_parts (with_parts [text_part (ascii ''Here you go''), image_part png_bytes])
      = Inr ([text_part (ascii ''Here you go'')] @ image_part png_bytes # [])"
    by (simp add: first_candidate_parts_with_parts)
  have p2: "part_text (image_part png_bytes) = None"
    and p3: "inline_data (image_part png_bytes) = Some (Blob (Some png_bytes))"
    by (simp_all add: image_part_def)
  have p4: "\<forall>q\<in>set ([] :: part list). part_text q \<noteq> None \<or> inline_data q = None"
    by simp
  note th = image_reply_pipeline
      [OF demo_body [symmetric] demo_body_value demo_env_simps(1) p1 p2 p3 ne p4 o s c, of world0]
  note th1 = th [THEN conjunct1]
  note th2 = th [THEN conjunct2, THEN conjunct1]
  note th5 = th [THEN conjunct2, THEN conjunct2, THEN conjunct2, THEN conjunct2]
  have fn: "generated_filename ?e = ascii ''generated_1b9d6bcd.png''"
    by (rule demo_filename(2))
  have url: "getenv ?e (ascii ''NGROK_URL'') (ascii ''https://4e8be9ba5910.ngrok-free.app'')
        @ ascii ''/images/'' @ ascii ''generated_1b9d6bcd.png''
      = ascii ''https://4e8be9ba5910.ngrok-free.app/images/generated_1b9d6bcd.png''"
    by (simp add: getenv_def demo_env_simps ascii_def)
  from th1 th2 th5 show ?thesis
    by (simp add: fn url demo_from world0_def)
qed

text \<open>
  Claim C7 as stated fails: a response whose only part carries inline image data together
  with a text gets the no-image reply; no file is written and no request goes to the
  provider.
\<close>

theorem image_in_text_part_counterexample:
  "inline_data (Part (Some (ascii ''Here you go'')) (Some (Blob (Some png_bytes))))
     = Some (Blob (Some png_bytes))
   \<and> fst (incoming_whatsapp
         (demo_env [Part (Some (ascii ''Here you go'')) (Some (Blob (Some png_bytes)))])
         demo_form world0) = [no_image_notice @ ascii ''Here you go'' @ newline]
   \<and> fst (incoming_whatsapp
         (demo_env [Part (Some (ascii ''Here you go'')) (Some (Blob (Some png_bytes)))])
         demo_form world0) \<noteq> [success_text]
   \<and> files (snd (incoming_whatsapp
         (demo_env [Part (Some (ascii ''Here you go'')) (Some (Blob (Some png_bytes)))])
         demo_form world0)) = Map.empty
   \<and> created_messages (snd (incoming_whatsapp
         (demo_env [Part (Some (ascii ''Here you go'')) (Some (Blob (Some png_bytes)))])
         demo_form world0)) = []"
proof -
  let ?ps = "[Part (Some (ascii ''Here you go'')) (Some (Blob (Some png_bytes)))]"
  have pp: "process_parts ?ps None [] = (None, ascii ''Here you go'' @ newline)" by simp
  then have nt: "\<not> truthy (fst (process_parts ?ps None []))" by (simp add: truthy_def)
  have "no_image_branch (ascii ''Here you go'' @ newline)
      = [no_image_notice @ ascii ''Here you go'' @ newline]"
    by (simp add: no_image_branch_def newline_def message_def MessagingResponse_def)
  with demo_no_image_run [OF nt] pp texts_distinct(4) [of "ascii ''Here you go'' @ newline"]
  show ?thesis by simp
qed

section \<open>The reply without an image\<close>

text \<open>
  Claim C6, amended. For a request with a non-blank body and a response none of whose
  parts has inline data, no file is written and no request goes to the provider; the
  reply is the could-not-generate text when no part has a text, and otherwise the no-image
  notice followed by the texts of the parts, each followed by a newline: the texts joined
  by newlines and one more newline at the end.
\<close>

theorem text_only_reply:
  assumes "msg = strip (form_get_default f (ascii ''Body'') [])" and "msg \<noteq> []"
    and "generate_content e (ascii ''gemini-2.5-flash-image'') [msg] = Inr r"
    and "first_candidate_parts r = Inr ps"
    and "\<forall>p\<in>set ps. inline_data p = None"
  shows "files (snd (incoming_whatsapp e f w)) = files w
       \<and> created_messages (snd (incoming_whatsapp e f w)) = created_messages w
       \<and> fst (incoming_whatsapp e f w)
           = [if part_texts ps = [] then could_not_generate_text
              else no_image_notice @ concat (map (\<lambda>t. t @ newline) (part_texts ps))]
       \<and> (part_texts ps \<noteq> [] \<longrightarrow>
            concat (map (\<lambda>t. t @ newline) (part_texts ps))
              = join_newline (part_texts ps) @ newline)"
proof -
  have "fst (process_parts ps None []) = None"
    using assms(5) by (rule no_inline_data_no_image)
  then have nt: "\<not> truthy (fst (process_parts ps None []))" by (simp add: truthy_def)
  note run = incoming_whatsapp_no_image [OF assms(1-4) nt]
  have acc: "snd (process_parts ps None []) = concat (map (\<lambda>t. t @ newline) (part_texts ps))"
    by (simp add: process_parts_text)
  have empty: "concat (map (\<lambda>t. t @ newline) (part_texts ps)) = [] \<longleftrightarrow> part_texts ps = []"
    by (cases "part_texts ps") (simp_all add: newline_def)
  have "fst (incoming_whatsapp e f w)
           = [if part_texts ps = [] then could_not_generate_text
              else no_image_notice @ concat (map (\<lambda>t. t @ newline) (part_texts ps))]"
    using run(1) [of w] acc empty
    by (simp add: no_image_branch_def message_def MessagingResponse_def)
  with run(2) [of w] run(4) [of w] concat_newline_join [of "part_texts ps"]
  show ?thesis by simp
qed

theorem text_only_reply_witness:
  "fst (incoming_whatsapp (demo_env [text_part (ascii ''Here''), text_part (ascii ''you go'')])
          demo_form world0)
     = [no_image_notice @ ascii ''Here'' @ newline @ ascii ''you go'' @ newline]
   \<and> files (snd (incoming_whatsapp
          (demo_env [text_part (ascii ''Here''), text_part (ascii ''you go'')])
          demo_form world0)) = Map.empty
   \<and> created_messages (snd (incoming_whatsapp
          (demo_env [text_part (ascii ''Here''), text_part (ascii ''you go'')])
          demo_form world0)) = []
   \<and> fst (incoming_whatsapp (demo_env []) demo_form world0) = [could_not_generate_text]"
proof -
  let ?ps = "[text_part (ascii ''Here''), text_part (ascii ''you go'')]"
  have 1: "\<forall>p\<in>set ?ps. inline_data p = None" by (simp add: text_part_def)
  have 2: "\<forall>p\<in>set ([] :: part list). inline_data p = None" by simp
  from text_only_reply [where e = "demo_env ?ps" and f = demo_form and w = world0
      and msg = "ascii ''a red bicycle''" and r = "with_parts ?ps" and ps = ?ps,
      OF demo_body [symmetric] demo_body_value demo_env_simps(1)
         first_candidate_parts_with_parts 1]
    text_only_reply [where e = "demo_env []" and f = demo_form and w = world0
      and msg = "ascii ''a red bicycle''" and r = "with_parts []" and ps = "[]",
      OF demo_body [symmetric] demo_body_value demo_env_simps(1)
         first_candidate_parts_with_parts 2]
  show ?thesis by (simp add: text_part_def world0_def)
qed

text \<open>
  Claim C6 as stated fails: for the two fragments \<open>Here\<close> and \<open>you go\<close> the reply ends
  with a newline, which the fragments joined by newline do not have.
\<close>

theorem trailing_newline_counterexample:
  "fst (incoming_whatsapp (demo_env [text_part (ascii ''Here''), text_part (ascii ''you go'')])
          demo_form world0)
     = [no_image_notice @ ascii ''Here'' @ newline @ ascii ''you go'' @ newline]
   \<and> join_newline [ascii ''Here'', ascii ''you go''] = ascii ''Here'' @ newline @ ascii ''you go''
   \<and> fst (incoming_whatsapp (demo_env [text_part (ascii ''Here''), text_part (ascii ''you go'')])
          demo_form world0)
     \<noteq> [no_image_notice @ join_newline [ascii ''Here'', ascii ''you go'']]"
proof -
  let ?ps = "[text_part (ascii ''Here''), text_part (ascii ''you go'')]"
  have pp: "process_parts ?ps None []
      = (None, ascii ''Here'' @ newline @ ascii ''you go'' @ newline)"
    by (simp add: text_part_def)
  then have nt: "\<not> truthy (fst (process_parts ?ps None []))" by (simp add: truthy_def)
  have "no_image_branch (ascii ''Here'' @ newline @ ascii ''you go'' @ newline)
      = [no_image_notice @ ascii ''Here'' @ newline @ ascii ''you go'' @ newline]"
    by (simp add: no_image_branch_def newline_def message_def MessagingResponse_def)
  with demo_no_image_run(1) [OF nt] pp show ?thesis
    by (simp add: newline_def)
qed

section \<open>Serving a stored image\<close>

lemma served_files_logger_info: "served_files fs (logger_info m w) = served_files fs w"
  by (simp add: served_files_def logger_info_def split: option.splits)

lemma serve_image_missing:
  "open_error fs name = None \<Longrightarrow> served_files fs w name = None \<Longrightarrow>
   fst (serve_image fs name w) = Inr (BodyStatus (ascii ''Image not found'') 404)"
  by (simp add: serve_image_def send_file_def served_files_logger_info no_such_file_def Let_def)

lemma serve_image_present:
  "open_error fs name = None \<Longrightarrow> served_files fs w name = Some b \<Longrightarrow>
   fst (serve_image fs name w) = Inr (SentFile b (ascii ''image/png''))"
  by (simp add: serve_image_def send_file_def served_files_logger_info Let_def)

lemma serve_image_refused:
  "open_error fs name = Some x \<Longrightarrow>
   fst (serve_image fs name w)
     = (if is_FileNotFoundError x then Inr (BodyStatus (ascii ''Image not found'') 404)
        else Inl x)"
  by (simp add: serve_image_def send_file_def Let_def)

lemma serve_image_files: "files (snd (serve_image fs name w)) = files w"
  by (simp add: serve_image_def send_file_def no_such_file_def logger_info_def
      logger_error_def Let_def split: option.splits)

lemma image_branch_writes:
  "fst (image_branch e m fr d w) = Inr reply \<Longrightarrow>
   \<exists>stored. files (snd (image_branch e m fr d w)) (generated_filename e) = Some stored"
  by (auto simp: image_branch_def Let_def logger_info_def split: sum.splits)

lemma no_image_branch_not_success: "no_image_branch t \<noteq> [success_text]"
  using texts_distinct(1) texts_distinct(4) [of t]
  by (simp add: no_image_branch_def message_def MessagingResponse_def)

lemma try_body_success_writes:
  assumes "fst (try_body e m fr w) = Inr [success_text]"
  shows "\<exists>stored. files (snd (try_body e m fr w)) (generated_filename e) = Some stored"
proof (cases "generate_content e (ascii ''gemini-2.5-flash-image'') [m]")
  case (Inl x)
  with assms show ?thesis by (simp add: try_body_def Let_def)
next
  case (Inr r)
  show ?thesis
  proof (cases "first_candidate_parts r")
    case (Inl x)
    with Inr assms show ?thesis by (simp add: try_body_def Let_def)
  next
    case ps: (Inr ps)
    show ?thesis
    proof (cases "truthy (fst (process_parts ps None []))")
      case False
      from try_body_no_image [OF Inr ps False] assms no_image_branch_not_success
      show ?thesis by simp
    next
      case True
      then obtain d where d: "fst (process_parts ps None []) = Some d" "d \<noteq> []"
        by (auto simp: truthy_def split: option.splits)
      from try_body_image [OF Inr ps d] assms image_branch_writes
      show ?thesis by simp
    qed
  qed
qed

lemma incoming_whatsapp_success_writes:
  assumes "fst (incoming_whatsapp e f w) = [success_text]"
  shows "\<exists>stored. files (snd (incoming_whatsapp e f w)) (generated_filename e) = Some stored"
proof -
  let ?m = "strip (form_get_default f (ascii ''Body'') [])"
  let ?fr = "form_get f (ascii ''From'')"
  let ?w1 = "logger_info (ascii ''Received message from '' @ format_opt ?fr
                            @ ascii '': '' @ ?m) w"
  have nb: "?m \<noteq> []"
  proof
    assume "?m = []"
    then have "fst (incoming_whatsapp e f w) = []"
      by (simp add: incoming_whatsapp_def Let_def MessagingResponse_def)
    with assms show False by simp
  qed
  obtain r w2 where tb: "try_body e ?m ?fr ?w1 = (r, w2)"
    by (cases "try_body e ?m ?fr ?w1")
  show ?thesis
  proof (cases r)
    case (Inl x)
    with tb nb assms texts_distinct(2) show ?thesis
      by (simp add: incoming_whatsapp_nonblank)
  next
    case (Inr reply)
    with tb nb assms have "reply = [success_text]"
      by (simp add: incoming_whatsapp_nonblank)
    with tb Inr have "fst (try_body e ?m ?fr ?w1) = Inr [success_text]" by simp
    from try_body_success_writes [OF this] tb Inr nb show ?thesis
      by (simp add: incoming_whatsapp_nonblank)
  qed
qed

text \<open>
  Claim C8, amended. Fetching a name that the operating system does not refuse to open and
  under which the served directory has no file gives the not-found answer with status 404;
  when the operating system refuses the name with an error other than
  \<open>FileNotFoundError\<close>, that error leaves the endpoint instead. Fetching a name under which
  a file is stored gives exactly the stored bytes, and fetching changes no file. After a
  run of the handler that returned the success text, when the served directory is the
  working directory and the generated name is not refused, a file is stored under the
  generated name and fetching that name gives exactly its bytes.
\<close>

theorem serve_image_round_trip:
  "(open_error fs name = None \<and> served_files fs w name = None \<longrightarrow>
      fst (serve_image fs name w) = Inr (BodyStatus (ascii ''Image not found'') 404))
   \<and> (open_error fs name = Some x \<and> \<not> is_FileNotFoundError x \<longrightarrow>
      fst (serve_image fs name w) = Inl x)
   \<and> (open_error fs name = None \<and> served_files fs w name = Some b \<longrightarrow>
      fst (serve_image fs name w) = Inr (SentFile b (ascii ''image/png'')))
   \<and> files (snd (serve_image fs name w)) = files w
   \<and> (root_dir fs = None \<and> open_error fs (generated_filename e) = None
        \<and> fst (incoming_whatsapp e f w) = [success_text] \<longrightarrow>
       (\<exists>stored. files (snd (incoming_whatsapp e f w)) (generated_filename e) = Some stored
          \<and> fst (serve_image fs (generated_filename e) (snd (incoming_whatsapp e f w)))
              = Inr (SentFile stored (ascii ''image/png''))))"
proof (intro conjI impI; (elim conjE)?)
  assume "open_error fs name = None" and "served_files fs w name = None"
  then show "fst (serve_image fs name w) = Inr (BodyStatus (ascii ''Image not found'') 404)"
    by (rule serve_image_missing)
next
  assume "open_error fs name = Some x" and "\<not> is_FileNotFoundError x"
  then show "fst (serve_image fs name w) = Inl x"
    by (simp add: serve_image_refused)
next
  assume "open_error fs name = None" and "served_files fs w name = Some b"
  then show "fst (serve_image fs name w) = Inr (SentFile b (ascii ''image/png''))"
    by (rule serve_image_present)
next
  show "files (snd (serve_image fs name w)) = files w" by (rule serve_image_files)
next
  assume root: "root_dir fs = None" and op: "open_error fs (generated_filename e) = None"
    and ok: "fst (incoming_whatsapp e f w) = [success_text]"
  from incoming_whatsapp_success_writes [OF ok] obtain stored where
    st: "files (snd (incoming_whatsapp e f w)) (generated_filename e) = Some stored" ..
  with root have "served_files fs (snd (incoming_whatsapp e f w)) (generated_filename e)
      = Some stored"
    by (simp add: served_files_def)
  from serve_image_present [OF op this] st
  show "\<exists>stored. files (snd (incoming_whatsapp e f w)) (generated_filename e) = Some stored
          \<and> fst (serve_image fs (generated_filename e) (snd (incoming_whatsapp e f w)))
              = Inr (SentFile stored (ascii ''image/png''))"
    by simp
qed

lemma demo_fs_simps:
  "root_dir demo_fs = None"
  "open_error demo_fs name
     = (if 255 < length name then Some (OSError (ascii ''[Errno 36] File name too long''))
        else None)"
  by (simp_all add: demo_fs_def)

lemma long_name_length: "length long_name = 300"
  by (simp add: long_name_def)

theorem serve_image_round_trip_witness:
  "fst (serve_image demo_fs (ascii ''generated_00000000.png'') world0)
     = Inr (BodyStatus (ascii ''Image not found'') 404)
   \<and> fst (serve_image demo_fs long_name world0)
     = Inl (OSError (ascii ''[Errno 36] File name too long''))
   \<and> fst (incoming_whatsapp (demo_env [text_part (ascii ''Here you go''), image_part png_bytes])
          demo_form world0) = [success_text]
   \<and> fst (serve_image demo_fs (ascii ''generated_1b9d6bcd.png'')
         (snd (incoming_whatsapp
            (demo_env [text_part (ascii ''Here you go''), image_part png_bytes])
            demo_form world0)))
     = Inr (SentFile png_bytes (ascii ''image/png''))"
proof -
  let ?e = "demo_env [text_part (ascii ''Here you go''), image_part png_bytes]"
  have pp: "fst (process_parts [text_part (ascii ''Here you go''), image_part png_bytes] None [])
      = Some png_bytes"
    by (simp add: text_part_def image_part_def)
  note run = demo_image_run [OF pp png_signature(1)]
  have short: "\<not> 255 < length (ascii ''generated_00000000.png'')"
    "\<not> 255 < length (ascii ''generated_1b9d6bcd.png'')"
    by (simp_all add: ascii_def)
  from serve_image_round_trip [of demo_fs "ascii ''generated_00000000.png''" world0
      "OSError []" "[]" ?e demo_form]
    serve_image_round_trip [of demo_fs long_name world0
      "OSError (ascii ''[Errno 36] File name too long'')" "[]" ?e demo_form]
    serve_image_round_trip [of demo_fs "ascii ''generated_1b9d6bcd.png''"
      "snd (incoming_whatsapp ?e demo_form world0)" "OSError []" png_bytes ?e demo_form]
    run(1) run(2)
  show ?thesis
    by (simp add: world0_def demo_fs_simps served_files_def long_name_length short)
qed

text \<open>
  Claim C8 as stated fails: no file is stored under the name of 300 characters, and the
  endpoint does not answer not-found: the error of the operating system, which is not a
  \<open>FileNotFoundError\<close>, leaves it.
\<close>

theorem long_name_not_found_counterexample:
  "files world0 long_name = None
   \<and> served_files demo_fs world0 long_name = None
   \<and> fst (serve_image demo_fs long_name world0)
       = Inl (OSError (ascii ''[Errno 36] File name too long''))
   \<and> fst (serve_image demo_fs long_name world0)
       \<noteq> Inr (BodyStatus (ascii ''Image not found'') 404)"
proof -
  have "open_error demo_fs long_name = Some (OSError (ascii ''[Errno 36] File name too long''))"
    by (simp add: demo_fs_simps long_name_length)
  from serve_image_refused [OF this, of world0] show ?thesis
    by (simp add: world0_def served_files_def demo_fs_simps)
qed

section \<open>Cleanup at shutdown\<close>

lemma cleanup_loop_registry:
  "cleanup_loop os ns (w\<lparr>generated_images := g\<rparr>)
     = (fst (cleanup_loop os ns w), (snd (cleanup_loop os ns w))\<lparr>generated_images := g\<rparr>)"
proof (induction ns arbitrary: w)
  case Nil
  show ?case by simp
next
  case (Cons n ns)
  show ?case
  proof (cases "os_remove os n w")
    case (Inl x)
    then have "os_remove os n (w\<lparr>generated_images := g\<rparr>) = Inl x"
      by (auto simp: os_remove_def split: option.splits)
    with Inl show ?thesis by simp
  next
    case (Inr w1)
    then have "os_remove os n (w\<lparr>generated_images := g\<rparr>) = Inr (w1\<lparr>generated_images := g\<rparr>)"
      by (auto simp: os_remove_def split: option.splits)
    moreover have "logger_info m (w1\<lparr>generated_images := g\<rparr>)
        = (logger_info m w1)\<lparr>generated_images := g\<rparr>" for m
      by (simp add: logger_info_def)
    ultimately show ?thesis using Inr Cons.IH by simp
  qed
qed

lemma cleanup_loop_result:
  assumes "distinct ns" and "set ns \<subseteq> dom (files w)"
  shows "files (snd (cleanup_loop os ns w))
           = (\<lambda>n. if n \<in> set (takeWhile (\<lambda>n. remove_error os n = None) ns)
                   then None else files w n)
       \<and> logged (snd (cleanup_loop os ns w))
           = logged w @ map (\<lambda>n. INFO (ascii ''Cleaned up: '' @ n))
                          (takeWhile (\<lambda>n. remove_error os n = None) ns)
       \<and> generated_images (snd (cleanup_loop os ns w)) = generated_images w
       \<and> fst (cleanup_loop os ns w)
           = (case dropWhile (\<lambda>n. remove_error os n = None) ns of
                [] \<Rightarrow> None | n # rest \<Rightarrow> remove_error os n)"
  using assms
proof (induction ns arbitrary: w)
  case Nil
  show ?case by simp
next
  case (Cons n ns)
  show ?case
  proof (cases "remove_error os n")
    case (Some x)
    then show ?thesis by (simp add: os_remove_def)
  next
    case None
    from Cons.prems obtain b where b: "files w n = Some b" by auto
    let ?w1 = "logger_info (ascii ''Cleaned up: '' @ n) (w\<lparr>files := (files w)(n := None)\<rparr>)"
    have step: "cleanup_loop os (n # ns) w = cleanup_loop os ns ?w1"
      using None b by (simp add: os_remove_def)
    have d: "distinct ns" and notin: "n \<notin> set ns" using Cons.prems by auto
    have sub: "set ns \<subseteq> dom (files ?w1)"
      using Cons.prems notin by (auto simp: logger_info_def)
    note ih = Cons.IH [OF d sub]
    have f: "files ?w1 = (files w)(n := None)" and l: "logged ?w1 = logged w @ [INFO (ascii ''Cleaned up: '' @ n)]"
      and g: "generated_images ?w1 = generated_images w"
      by (simp_all add: logger_info_def)
    show ?thesis
      unfolding step using ih None by (auto simp: f l g)
  qed
qed

lemma glob_generated_set:
  "set (glob_generated os) = {n \<in> set (listdir os). fnmatch_generated n}"
  by (simp add: glob_generated_def)

lemma demo_names_differ:
  "ascii ''generated_aaaaaaaa.png'' \<noteq> ascii ''generated_bbbbbbbb.png''"
  "ascii ''generated_aaaaaaaa.png'' \<noteq> ascii ''app.py''"
  "ascii ''generated_bbbbbbbb.png'' \<noteq> ascii ''app.py''"
  "ascii ''generated_bbbbbbbb.png'' \<noteq> ascii ''generated_aaaaaaaa.png''"
  "ascii ''app.py'' \<noteq> ascii ''generated_aaaaaaaa.png''"
  "ascii ''app.py'' \<noteq> ascii ''generated_bbbbbbbb.png''"
  by (simp_all add: ascii_def)

lemma demo_fnmatch:
  "fnmatch_generated (ascii ''generated_aaaaaaaa.png'')"
  "fnmatch_generated (ascii ''generated_bbbbbbbb.png'')"
  "\<not> fnmatch_generated (ascii ''app.py'')"
  by (simp_all add: fnmatch_generated_def ascii_def)

lemma demo_glob:
  "glob_generated (demo_os\<lparr>remove_error := re\<rparr>)
     = [ascii ''generated_aaaaaaaa.png'', ascii ''generated_bbbbbbbb.png'']"
  "glob_generated demo_os = [ascii ''generated_aaaaaaaa.png'', ascii ''generated_bbbbbbbb.png'']"
  by (simp_all add: glob_generated_def demo_os_def demo_fnmatch)

lemma demo_listing:
  "distinct (listdir (demo_os\<lparr>remove_error := re\<rparr>))"
  "set (listdir (demo_os\<lparr>remove_error := re\<rparr>)) = dom (files demo_shutdown_world)"
  "distinct (listdir demo_os)"
  "set (listdir demo_os) = dom (files demo_shutdown_world)"
  by (auto simp: demo_os_def demo_shutdown_world_def world0_def demo_names_differ)

lemma demo_shutdown_files:
  "files demo_shutdown_world (ascii ''generated_aaaaaaaa.png'') = Some png_bytes"
  "files demo_shutdown_world (ascii ''generated_bbbbbbbb.png'') = Some other_png_bytes"
  "files demo_shutdown_world (ascii ''app.py'') = Some []"
  "logged demo_shutdown_world = []"
  by (simp_all add: demo_shutdown_world_def world0_def demo_names_differ)

lemma demo_remove_error:
  "remove_error demo_os (ascii ''generated_aaaaaaaa.png'')
     = Some (LibraryError (ascii ''Permission denied''))"
  "remove_error demo_os (ascii ''generated_bbbbbbbb.png'') = None"
  by (simp_all add: demo_os_def demo_names_differ)

text \<open>
  Claim C9, amended. With the directory listing naming exactly the stored files, the
  cleanup removes the files matching \<open>generated_*.png\<close> in listing order up to the first
  one whose removal fails, logs each removal, and on a failure logs the error and stops,
  so that file and the matching files after it stay; when no removal fails, no file with a
  matching name is left. The registry \<open>generated_images\<close> is neither read nor changed.
\<close>

theorem cleanup_stops_at_first_failure:
  assumes "distinct (listdir os)" and "set (listdir os) = dom (files w)"
  shows "files (cleanup_generated_images os w)
           = (\<lambda>n. if n \<in> set (takeWhile (\<lambda>n. remove_error os n = None) (glob_generated os))
                   then None else files w n)
       \<and> logged (cleanup_generated_images os w)
           = logged w
             @ map (\<lambda>n. INFO (ascii ''Cleaned up: '' @ n))
                 (takeWhile (\<lambda>n. remove_error os n = None) (glob_generated os))
             @ (case dropWhile (\<lambda>n. remove_error os n = None) (glob_generated os) of
                  [] \<Rightarrow> []
                | n # rest \<Rightarrow> [ERROR (ascii ''Cleanup error: ''
                                         @ str_exn (the (remove_error os n)))])
       \<and> ((\<forall>n\<in>set (glob_generated os). remove_error os n = None) \<longrightarrow>
            (\<forall>n. fnmatch_generated n \<longrightarrow> files (cleanup_generated_images os w) n = None))
       \<and> generated_images (cleanup_generated_images os w) = generated_images w
       \<and> cleanup_generated_images os (w\<lparr>generated_images := g\<rparr>)
           = (cleanup_generated_images os w)\<lparr>generated_images := g\<rparr>"
proof -
  let ?ok = "\<lambda>n. remove_error os n = None"
  let ?g = "glob_generated os"
  have d: "distinct ?g" using assms(1) by (simp add: glob_generated_def)
  have sub: "set ?g \<subseteq> dom (files w)" using assms(2) by (auto simp: glob_generated_def)
  note res = cleanup_loop_result [OF d sub, of os]
  obtain r w1 where cl: "cleanup_loop os ?g w = (r, w1)" by (cases "cleanup_loop os ?g w")
  have r: "r = (case dropWhile ?ok ?g of [] \<Rightarrow> None | n # rest \<Rightarrow> remove_error os n)"
    and fw1: "files w1 = (\<lambda>n. if n \<in> set (takeWhile ?ok ?g) then None else files w n)"
    and lw1: "logged w1 = logged w @ map (\<lambda>n. INFO (ascii ''Cleaned up: '' @ n)) (takeWhile ?ok ?g)"
    and gw1: "generated_images w1 = generated_images w"
    using res cl by simp_all
  have hd_fails: "remove_error os n \<noteq> None" if "dropWhile ?ok ?g = n # rest" for n rest
    using hd_dropWhile [of ?ok ?g] that by auto
  have files: "files (cleanup_generated_images os w)
           = (\<lambda>n. if n \<in> set (takeWhile ?ok ?g) then None else files w n)"
    using cl fw1 by (simp add: cleanup_generated_images_def logger_error_def split: option.splits)
  have log: "logged (cleanup_generated_images os w)
           = logged w @ map (\<lambda>n. INFO (ascii ''Cleaned up: '' @ n)) (takeWhile ?ok ?g)
             @ (case dropWhile ?ok ?g of [] \<Rightarrow> []
                | n # rest \<Rightarrow> [ERROR (ascii ''Cleanup error: '' @ str_exn (the (remove_error os n)))])"
  proof (cases "dropWhile ?ok ?g")
    case Nil
    with r cl lw1 show ?thesis
      by (simp add: cleanup_generated_images_def del: dropWhile_eq_Nil_conv)
  next
    case (Cons n rest)
    from hd_fails [OF Cons] obtain x where "remove_error os n = Some x" by auto
    with Cons r cl lw1 show ?thesis
      by (simp add: cleanup_generated_images_def logger_error_def)
  qed
  have all: "\<forall>n. fnmatch_generated n \<longrightarrow> files (cleanup_generated_images os w) n = None"
    if ok: "\<forall>n\<in>set ?g. remove_error os n = None"
  proof (intro allI impI)
    fix n assume m: "fnmatch_generated n"
    from ok have tw: "takeWhile ?ok ?g = ?g" by (simp add: takeWhile_eq_all_conv)
    show "files (cleanup_generated_images os w) n = None"
    proof (cases "n \<in> set (listdir os)")
      case True
      with m have "n \<in> set ?g" by (simp add: glob_generated_set)
      with files tw show ?thesis by simp
    next
      case False
      with assms(2) have "files w n = None" by auto
      with files show ?thesis by simp
    qed
  qed
  have gen: "generated_images (cleanup_generated_images os w) = generated_images w"
    using cl gw1 by (simp add: cleanup_generated_images_def logger_error_def split: option.splits)
  have reg: "cleanup_generated_images os (w\<lparr>generated_images := g\<rparr>)
           = (cleanup_generated_images os w)\<lparr>generated_images := g\<rparr>"
    using cl by (simp add: cleanup_generated_images_def cleanup_loop_registry logger_error_def
        split: option.splits)
  from files log all gen reg show ?thesis by blast
qed

theorem cleanup_stops_at_first_failure_witness:
  "files (cleanup_generated_images (demo_os\<lparr>remove_error := \<lambda>n. None\<rparr>) demo_shutdown_world)
      (ascii ''generated_aaaaaaaa.png'') = None
   \<and> files (cleanup_generated_images (demo_os\<lparr>remove_error := \<lambda>n. None\<rparr>) demo_shutdown_world)
      (ascii ''generated_bbbbbbbb.png'') = None
   \<and> files (cleanup_generated_images (demo_os\<lparr>remove_error := \<lambda>n. None\<rparr>) demo_shutdown_world)
      (ascii ''app.py'') = Some []
   \<and> logged (cleanup_generated_images (demo_os\<lparr>remove_error := \<lambda>n. None\<rparr>) demo_shutdown_world)
      = [INFO (ascii ''Cleaned up: '' @ ascii ''generated_aaaaaaaa.png''),
         INFO (ascii ''Cleaned up: '' @ ascii ''generated_bbbbbbbb.png'')]
   \<and> files (cleanup_generated_images demo_os demo_shutdown_world) = files demo_shutdown_world
   \<and> logged (cleanup_generated_images demo_os demo_shutdown_world)
      = [ERROR (ascii ''Cleanup error: '' @ ascii ''Permission denied'')]"
proof -
  have l1: "distinct (listdir (demo_os\<lparr>remove_error := \<lambda>n. None\<rparr>))"
    by (rule demo_listing(1))
  have l2: "set (listdir (demo_os\<lparr>remove_error := \<lambda>n. None\<rparr>))
      = dom (files demo_shutdown_world)"
    by (rule demo_listing(2))
  note ok = cleanup_stops_at_first_failure [OF l1 l2]
  note bad = cleanup_stops_at_first_failure [OF demo_listing(3) demo_listing(4)]
  from ok [THEN conjunct1] ok [THEN conjunct2, THEN conjunct1]
    bad [THEN conjunct1] bad [THEN conjunct2, THEN conjunct1]
  show ?thesis
    by (simp add: demo_glob demo_remove_error demo_shutdown_files demo_names_differ)
qed

text \<open>
  Claim C9 as stated fails: when removing the first generated image fails, the second
  one, which matches the pattern and could be removed, is still there after the cleanup.
\<close>

theorem cleanup_aborts_counterexample:
  "fnmatch_generated (ascii ''generated_bbbbbbbb.png'')
   \<and> remove_error demo_os (ascii ''generated_bbbbbbbb.png'') = None
   \<and> files (cleanup_generated_images demo_os demo_shutdown_world)
        (ascii ''generated_bbbbbbbb.png'') = Some other_png_bytes
   \<and> logged (cleanup_generated_images demo_os demo_shutdown_world)
      = [ERROR (ascii ''Cleanup error: '' @ ascii ''Permission denied'')]"
proof -
  have "cleanup_loop demo_os (glob_generated demo_os) demo_shutdown_world
      = (Some (LibraryError (ascii ''Permission denied'')), demo_shutdown_world)"
    by (simp add: demo_glob os_remove_def demo_remove_error)
  then have "cleanup_generated_images demo_os demo_shutdown_world
      = logger_error (ascii ''Cleanup error: '' @ ascii ''Permission denied'') demo_shutdown_world"
    by (simp add: cleanup_generated_images_def)
  then show ?thesis
    by (simp add: logger_error_def demo_fnmatch demo_remove_error demo_shutdown_files)
qed

end
